theory Spec2Isabelle
  imports Main "HOL-Library.Char_ord" "HOL-Library.List_Lexorder"
begin

section \<open>Errors and outcomes\<close>

text \<open>
  Every exception the modelled Python can raise is a value of \<open>error\<close>. A handler
  that raises keeps the effects it had before the raise (every \<open>db_exec\<close> commits at
  once), so a handler returns an outcome together with the state it left behind.
\<close>

datatype error =
    TransportError
  | ValueError
  | IndexError
  | KeyError
  | TypeError
  | AttributeError
  | IntegrityError

datatype outcome = Done | Raised error

section \<open>Python strings\<close>

text \<open>
  A Python \<open>str\<close> is a \<open>string\<close> whose characters are the code points below 256.
  Action tokens are ASCII; free text outside this range is outside the model.
\<close>

definition is_space :: "char \<Rightarrow> bool" where
  \<comment> \<open>\<open>str.isspace\<close> on the code points below 256\<close>
  "is_space c =
     (let n = (of_char c :: nat)
      in (9 \<le> n \<and> n \<le> 13) \<or> (28 \<le> n \<and> n \<le> 32) \<or> n = 133 \<or> n = 160)"

definition strip :: "string \<Rightarrow> string" where
  "strip s = rev (dropWhile is_space (rev (dropWhile is_space s)))"

definition lstrip :: "string \<Rightarrow> string" where
  "lstrip s = dropWhile is_space s"

definition startswith :: "string \<Rightarrow> string \<Rightarrow> bool" where
  "startswith s p = (take (length p) s = p)"

definition endswith :: "string \<Rightarrow> string \<Rightarrow> bool" where
  "endswith s p = (length p \<le> length s \<and> drop (length s - length p) s = p)"

fun split :: "char \<Rightarrow> string \<Rightarrow> string list" where
  \<comment> \<open>\<open>s.split(sep)\<close> for a separator of one character\<close>
  "split sep [] = [[]]"
| "split sep (c # cs) =
     (if c = sep then [] # split sep cs
      else (case split sep cs of
              [] \<Rightarrow> [[c]]
            | w # ws \<Rightarrow> (c # w) # ws))"

definition item :: "'a list \<Rightarrow> nat \<Rightarrow> error + 'a" where
  \<comment> \<open>\<open>xs[k]\<close> for a literal index \<open>k \<ge> 0\<close>\<close>
  "item xs k = (if k < length xs then Inr (xs ! k) else Inl IndexError)"

definition is_digit :: "char \<Rightarrow> bool" where
  "is_digit c = (let n = (of_char c :: nat) in 48 \<le> n \<and> n \<le> 57)"

definition digit_val :: "char \<Rightarrow> nat" where
  "digit_val c = of_char c - 48"

text \<open>
  The digits of \<open>int(s)\<close>: decimal digits, with single underscores allowed between
  digits. The flag says that the previous character was a digit.
\<close>

fun parse_digits :: "bool \<Rightarrow> nat \<Rightarrow> string \<Rightarrow> nat option" where
  "parse_digits d acc [] = (if d then Some acc else None)"
| "parse_digits d acc (c # cs) =
     (if is_digit c then parse_digits True (10 * acc + digit_val c) cs
      else if c = CHR ''_'' \<and> d then parse_digits False acc cs
      else None)"

definition py_int :: "string \<Rightarrow> error + int" where
  \<comment> \<open>\<open>int(s)\<close> of a string: raises ValueError on anything but a decimal literal\<close>
  "py_int s =
     (let t = strip s;
          r = (case t of
                 [] \<Rightarrow> None
               | c # cs \<Rightarrow>
                   if c = CHR ''-'' then map_option (\<lambda>n. - int n) (parse_digits False 0 cs)
                   else if c = CHR ''+'' then map_option int (parse_digits False 0 cs)
                   else map_option int (parse_digits False 0 t))
      in case r of None \<Rightarrow> Inl ValueError | Some n \<Rightarrow> Inr n)"

definition digit_char :: "nat \<Rightarrow> char" where
  "digit_char n = ''0123456789'' ! n"

function show_nat :: "nat \<Rightarrow> string" where
  "show_nat n = (if n < 10 then [digit_char n] else show_nat (n div 10) @ [digit_char (n mod 10)])"
  by pat_completeness auto
termination
  by (relation "measure id") auto

declare show_nat.simps [simp del]

definition show_int :: "int \<Rightarrow> string" where
  \<comment> \<open>\<open>str(n)\<close> and \<open>f"{n}"\<close> of an int\<close>
  "show_int n = (if n < 0 then CHR ''-'' # show_nat (nat (- n)) else show_nat (nat n))"

definition plain_digits :: "string \<Rightarrow> bool" where
  \<comment> \<open>what \<open>str(n)\<close> consists of, the sign apart\<close>
  "plain_digits s =
     (\<forall>c \<in> set s. is_digit c \<and> \<not> is_space c \<and> c \<noteq> CHR '':'' \<and> c \<noteq> CHR ''-'' \<and> c \<noteq> CHR ''+'')"

definition to_lower :: "char \<Rightarrow> char" where
  "to_lower c =
     (let n = (of_char c :: nat)
      in if (65 \<le> n \<and> n \<le> 90) \<or> (192 \<le> n \<and> n \<le> 222 \<and> n \<noteq> 215)
         then char_of (n + 32) else c)"

definition lower :: "string \<Rightarrow> string" where
  "lower s = map to_lower s"

section \<open>JSON values\<close>

text \<open>
  What \<open>json.loads\<close> returns: \<open>None\<close>, a bool, an int, a str, a list or a dict (the
  dict of an object is the association list of its keys, looked up by \<open>map_of\<close>).
  Numbers with a fraction or an exponent are left out of the datatype.
\<close>

datatype json =
    JNull
  | JBool bool
  | JInt int
  | JStr string
  | JArr "json list"
  | JObj "(string \<times> json) list"

text \<open>
  A text column holding a JSON document is modelled by what \<open>json.loads\<close> makes of it:
  no text at all (NULL or the empty string, both falsy), a text that \<open>json.loads\<close>
  rejects, or the parsed document. \<open>json.dumps\<close> followed by \<open>json.loads\<close> is the
  identity on the documents the program writes.
\<close>

datatype json_text = NoText | Malformed | Document json

definition truthy :: "json \<Rightarrow> bool" where
  "truthy j =
     (case j of
        JNull \<Rightarrow> False
      | JBool b \<Rightarrow> b
      | JInt n \<Rightarrow> n \<noteq> 0
      | JStr s \<Rightarrow> s \<noteq> []
      | JArr xs \<Rightarrow> xs \<noteq> []
      | JObj kvs \<Rightarrow> kvs \<noteq> [])"

definition int_of_json :: "json \<Rightarrow> error + int" where
  \<comment> \<open>\<open>int(v)\<close>\<close>
  "int_of_json j =
     (case j of
        JNull \<Rightarrow> Inl TypeError
      | JBool b \<Rightarrow> Inr (if b then 1 else 0)
      | JInt n \<Rightarrow> Inr n
      | JStr s \<Rightarrow> py_int s
      | JArr xs \<Rightarrow> Inl TypeError
      | JObj kvs \<Rightarrow> Inl TypeError)"

text \<open>
  \<open>str(v)\<close>. The \<open>repr\<close> of a list or dict is taken from the environment
  (\<open>container_repr\<close>); it is never empty and has no leading or trailing space.
\<close>

definition str_of_json :: "(json \<Rightarrow> string) \<Rightarrow> json \<Rightarrow> string" where
  "str_of_json container_repr j =
     (case j of
        JNull \<Rightarrow> ''None''
      | JBool b \<Rightarrow> (if b then ''True'' else ''False'')
      | JInt n \<Rightarrow> show_int n
      | JStr s \<Rightarrow> s
      | JArr xs \<Rightarrow> container_repr j
      | JObj kvs \<Rightarrow> container_repr j)"

definition dict_get :: "(string \<times> json) list \<Rightarrow> string \<Rightarrow> json \<Rightarrow> json" where
  \<comment> \<open>\<open>d.get(key, default)\<close>\<close>
  "dict_get d k dflt = (case map_of d k of None \<Rightarrow> dflt | Some v \<Rightarrow> v)"

section \<open>Link buttons (core_helpers.py)\<close>

record link =
  l_text :: string
  l_url :: string
  l_active :: int

definition link_json :: "link \<Rightarrow> json" where
  "link_json l = JObj [(''text'', JStr (l_text l)), (''url'', JStr (l_url l)), (''active'', JInt (l_active l))]"

definition valid_link :: "link \<Rightarrow> bool" where
  \<comment> \<open>an entry as \<open>load_links\<close> returns it\<close>
  "valid_link l =
     (l_text l \<noteq> [] \<and> strip (l_text l) = l_text l \<and> l_url l \<noteq> [] \<and> strip (l_url l) = l_url l
      \<and> (l_active l = 0 \<or> l_active l = 1))"

text \<open>The body of the loop of \<open>load_links\<close>: \<open>None\<close> is \<open>continue\<close>.\<close>

definition norm_link :: "(json \<Rightarrow> string) \<Rightarrow> json \<Rightarrow> error + link option" where
  "norm_link container_repr x =
     (case x of
        JObj d \<Rightarrow>
          (let t = strip (str_of_json container_repr (dict_get d ''text'' (JStr '''')));
               u = strip (str_of_json container_repr (dict_get d ''url'' (JStr '''')))
           in if t = [] \<or> u = [] then Inr None
              else (let a = dict_get d ''active'' (JInt 1)
                    in case int_of_json (if truthy a then a else JInt 0) of
                         Inl e \<Rightarrow> Inl e
                       | Inr n \<Rightarrow> Inr (Some \<lparr>l_text = t, l_url = u, l_active = (if n \<noteq> 0 then 1 else 0)\<rparr>)))
      | _ \<Rightarrow> Inr None)"

fun norm_links :: "(json \<Rightarrow> string) \<Rightarrow> json list \<Rightarrow> error + link list" where
  "norm_links container_repr [] = Inr []"
| "norm_links container_repr (x # xs) =
     (case norm_link container_repr x of
        Inl e \<Rightarrow> Inl e
      | Inr None \<Rightarrow> norm_links container_repr xs
      | Inr (Some l) \<Rightarrow>
          (case norm_links container_repr xs of
             Inl e \<Rightarrow> Inl e
           | Inr ls \<Rightarrow> Inr (l # ls)))"

definition load_links_of :: "(json \<Rightarrow> string) \<Rightarrow> json_text \<Rightarrow> error + link list" where
  \<comment> \<open>\<open>load_links\<close>, as a function of the value of the setting \<open>links_json\<close>\<close>
  "load_links_of container_repr raw =
     (case raw of
        NoText \<Rightarrow> Inr []
      | Malformed \<Rightarrow> Inr []
      | Document (JArr xs) \<Rightarrow> norm_links container_repr xs
      | Document _ \<Rightarrow> Inr [])"

section \<open>The store (db_layer.py)\<close>

text \<open>
  One record per table of \<open>init_db\<close>, a table being the list of its rows. The columns
  \<open>id\<close> and \<open>created_at\<close> of \<open>messages\<close> are never read and are left out. The
  setting \<open>links_json\<close> is kept apart from the other settings, as a \<open>json_text\<close>.
  The \<open>seq_\<close> fields are the rows of \<open>sqlite_sequence\<close> (AUTOINCREMENT).
\<close>

record cat_row =
  c_id :: int
  c_name :: string
  c_is_active :: int

record prod_row =
  p_id :: int
  p_category_id :: "int option"
  p_name :: string
  p_description :: "string option"
  p_price :: int
  p_stock :: int
  p_is_active :: int
  p_created_at :: string

record photo_row =
  ph_id :: int
  ph_product_id :: int
  ph_file_id :: string

record variant_row =
  v_id :: int
  v_product_id :: int
  v_name :: string
  v_stock :: int

record user_row =
  u_user_id :: int
  u_username :: string
  u_first_name :: string
  u_last_name :: string
  u_updated_at :: string

record editor_row =
  e_user_id :: int
  e_username :: string
  e_is_active :: int
  perm_cats :: int
  perm_prods :: int
  perm_photos :: int
  perm_links :: int
  perm_welcome :: int
  perm_reserve :: int

record msg_row =
  chat_id :: int
  message_id :: int
  scope :: string

record store =
  categories :: "cat_row list"
  products :: "prod_row list"
  product_categories :: "(int \<times> int) list"
  photos :: "photo_row list"
  product_variants :: "variant_row list"
  users :: "user_row list"
  editors :: "editor_row list"
  settings :: "(string \<times> string) list"
  links_json :: json_text
  messages :: "msg_row list"
  seq_categories :: int
  seq_products :: int
  seq_photos :: int
  seq_variants :: int

definition get_setting :: "store \<Rightarrow> string \<Rightarrow> string option" where
  "get_setting d k = map_of (settings d) k"

fun upsert_setting :: "string \<Rightarrow> string \<Rightarrow> (string \<times> string) list \<Rightarrow> (string \<times> string) list" where
  "upsert_setting k v [] = [(k, v)]"
| "upsert_setting k v ((k', v') # kvs) =
     (if k' = k then (k, v) # kvs else (k', v') # upsert_setting k v kvs)"

definition set_setting :: "string \<Rightarrow> string \<Rightarrow> store \<Rightarrow> store" where
  "set_setting k v d = d\<lparr>settings := upsert_setting k v (settings d)\<rparr>"

definition setting_or :: "store \<Rightarrow> string \<Rightarrow> string \<Rightarrow> string" where
  \<comment> \<open>\<open>get_setting(key) or default\<close>\<close>
  "setting_or d k dflt = (case get_setting d k of None \<Rightarrow> dflt | Some v \<Rightarrow> if v = [] then dflt else v)"

text \<open>
  The id an AUTOINCREMENT table gives a row inserted without one: one more than the
  largest id ever used.
\<close>

definition next_id :: "int list \<Rightarrow> int \<Rightarrow> int" where
  "next_id ids seq = fold max ids seq + 1"

section \<open>The environment and the inbound update\<close>

text \<open>
  \<open>admin_ids\<close> is \<open>ADMIN_IDS\<close>, parsed from the process environment at start-up.
  \<open>container_repr\<close> is \<open>repr\<close> on lists and dicts. \<open>reserve_link username tpl id
  name\<close> is the url \<open>reserve_url_for\<close> formats from the user name, the stored message
  template (if any), and the product's id and name. \<open>cyrillic\<close> gives the program's
  Cyrillic string literals that end up in the store, each named by its English gloss
  (\<open>cyrillic E ''Catalog.''\<close> is the default welcome text).
\<close>

record env =
  admin_ids :: "int list"
  container_repr :: "json \<Rightarrow> string"
  reserve_link :: "string \<Rightarrow> string option \<Rightarrow> int \<Rightarrow> string \<Rightarrow> string"
  cyrillic :: "string \<Rightarrow> string"

record tg_user =
  tg_id :: int
  tg_username :: "string option"
  tg_first_name :: "string option"
  tg_last_name :: "string option"

text \<open>
  What a handler reads of its \<open>Update\<close>: the effective user and chat, the text message
  (its id and text) or the callback data, the photo's file id, and the reading of the
  database clock (\<open>datetime('now')\<close>) while the update is handled.
\<close>

record update =
  effective_user :: "tg_user option"
  effective_chat :: int
  text_message :: "(int \<times> string) option"
  callback_query :: "string option"
  photo :: "string option"
  clock :: string

section \<open>Messaging transport\<close>

text \<open>
  The transport is remote and can fail on any call. The model keeps the messages that
  are present in the chats, the id the next sent message gets, the log of the calls made,
  and the outcomes of the calls still to come (\<open>True\<close> is success; an exhausted list
  means every further call succeeds), so that every pattern of transient failures is an
  input of the model. Message texts and button labels are presentation and are left out:
  a sent message is its keyboard, a button its callback data or its url.
\<close>

datatype button = CallbackButton string | UrlButton string

type_synonym markup = "button list list"

datatype call =
    DeleteMessage int int
  | SendMessage int markup
  | SendPhoto int string markup
  | SendMediaGroup int "string list"
  | SendDocument int
  | AnswerCallback

record transport =
  visible :: "(int \<times> int) list"
  next_message_id :: int
  outcomes :: "bool list"
  calls :: "call list"

definition next_outcome :: "transport \<Rightarrow> bool \<times> transport" where
  "next_outcome t =
     (case outcomes t of
        [] \<Rightarrow> (True, t)
      | b # bs \<Rightarrow> (b, t\<lparr>outcomes := bs\<rparr>))"

definition delete_message :: "int \<Rightarrow> int \<Rightarrow> transport \<Rightarrow> (error + unit) \<times> transport" where
  "delete_message chat mid t =
     (let (ok, t1) = next_outcome t;
          t2 = t1\<lparr>calls := calls t1 @ [DeleteMessage chat mid]\<rparr>
      in if ok \<and> (chat, mid) \<in> set (visible t2)
         then (Inr (), t2\<lparr>visible := removeAll (chat, mid) (visible t2)\<rparr>)
         else (Inl TransportError, t2))"

definition send :: "call \<Rightarrow> int \<Rightarrow> transport \<Rightarrow> (error + int) \<times> transport" where
  \<comment> \<open>a call that posts one message into the chat and returns its id\<close>
  "send c chat t =
     (let (ok, t1) = next_outcome t;
          mid = next_message_id t1;
          t2 = t1\<lparr>calls := calls t1 @ [c]\<rparr>
      in if ok
         then (Inr mid, t2\<lparr>visible := visible t2 @ [(chat, mid)], next_message_id := mid + 1\<rparr>)
         else (Inl TransportError, t2))"

definition send_message :: "int \<Rightarrow> markup \<Rightarrow> transport \<Rightarrow> (error + int) \<times> transport" where
  "send_message chat kb t = send (SendMessage chat kb) chat t"

definition send_photo :: "int \<Rightarrow> string \<Rightarrow> markup \<Rightarrow> transport \<Rightarrow> (error + int) \<times> transport" where
  "send_photo chat file kb t = send (SendPhoto chat file kb) chat t"

definition send_document :: "int \<Rightarrow> transport \<Rightarrow> (error + int) \<times> transport" where
  "send_document chat t = send (SendDocument chat) chat t"

definition send_media_group :: "int \<Rightarrow> string list \<Rightarrow> transport \<Rightarrow> (error + int list) \<times> transport" where
  \<comment> \<open>posts one message per photo and returns their ids\<close>
  "send_media_group chat media t =
     (let (ok, t1) = next_outcome t;
          mids = map (\<lambda>i. next_message_id t1 + int i) [0 ..< length media];
          t2 = t1\<lparr>calls := calls t1 @ [SendMediaGroup chat media]\<rparr>
      in if ok
         then (Inr mids, t2\<lparr>visible := visible t2 @ map (Pair chat) mids,
                               next_message_id := next_message_id t1 + int (length media)\<rparr>)
         else (Inl TransportError, t2))"

definition answer :: "transport \<Rightarrow> (error + unit) \<times> transport" where
  \<comment> \<open>\<open>q.answer()\<close>\<close>
  "answer t =
     (let (ok, t1) = next_outcome t;
          t2 = t1\<lparr>calls := calls t1 @ [AnswerCallback]\<rparr>
      in if ok then (Inr (), t2) else (Inl TransportError, t2))"

section \<open>Per-user continuation state (\<open>context.user_data\<close>)\<close>

text \<open>
  The dict \<open>context.user_data\<close> of the user of the update, one field per key the
  program uses. A key that only ever holds \<open>True\<close> is a \<open>bool\<close> (\<open>False\<close>: absent);
  a key that carries a value is an \<open>option\<close> (\<open>None\<close>: absent).
\<close>

record user_data =
  await_addphoto_pid :: "int option"
  await_welcome :: bool
  await_link_text :: bool
  link_text :: "string option"
  await_link_url :: bool
  await_link_txt_i :: "int option"
  await_link_url_i :: "int option"
  await_cat_add :: bool
  await_cat_rename :: "int option"
  await_prod_name :: bool
  prod_add_back :: "string option"
  new_prod_name :: "string option"
  await_prod_desc :: bool
  await_prod_name_edit :: "int option"
  await_prod_desc_edit :: "int option"
  await_variant_name :: "int option"
  new_variant_name :: "string option"
  await_variant_stock :: "int option"
  await_variant_name_edit :: "(int \<times> int) option"
  await_variant_stock_edit :: "(int \<times> int) option"
  await_reserve_text :: bool
  await_reserve_username :: bool
  await_reserve_tpl :: bool
  await_editor_add :: bool
  prod_cats_pid :: "int option"
  prod_cats_selected :: "int list option"

definition empty_user_data :: user_data where
  "empty_user_data =
     \<lparr>await_addphoto_pid = None, await_welcome = False, await_link_text = False,
      link_text = None, await_link_url = False, await_link_txt_i = None,
      await_link_url_i = None, await_cat_add = False, await_cat_rename = None,
      await_prod_name = False, prod_add_back = None, new_prod_name = None,
      await_prod_desc = False, await_prod_name_edit = None, await_prod_desc_edit = None,
      await_variant_name = None, new_variant_name = None, await_variant_stock = None,
      await_variant_name_edit = None, await_variant_stock_edit = None,
      await_reserve_text = False, await_reserve_username = False,
      await_reserve_tpl = False, await_editor_add = False,
      prod_cats_pid = None, prod_cats_selected = None\<rparr>"

section \<open>The state a handler runs in\<close>

record world =
  db :: store
  bot :: transport
  ud :: user_data

type_synonym handler = "world \<Rightarrow> outcome \<times> world"

definition on_db :: "(store \<Rightarrow> store) \<Rightarrow> world \<Rightarrow> world" where
  \<comment> \<open>a \<open>db_exec\<close>\<close>
  "on_db f w = w\<lparr>db := f (db w)\<rparr>"

definition on_ud :: "(user_data \<Rightarrow> user_data) \<Rightarrow> world \<Rightarrow> world" where
  "on_ud f w = w\<lparr>ud := f (ud w)\<rparr>"

definition and_then :: "outcome \<times> world \<Rightarrow> handler \<Rightarrow> outcome \<times> world" where
  \<comment> \<open>sequencing: what follows a raise does not run\<close>
  "and_then r f = (case r of (Done, w) \<Rightarrow> f w | (Raised e, w) \<Rightarrow> (Raised e, w))"

section \<open>Scoped screen manager (core_helpers.py)\<close>

definition recorded :: "store \<Rightarrow> int \<Rightarrow> string \<Rightarrow> int list" where
  \<comment> \<open>\<open>SELECT message_id FROM messages WHERE chat_id=? AND scope=?\<close>\<close>
  "recorded d chat sc =
     map message_id (filter (\<lambda>r. chat_id r = chat \<and> scope r = sc) (messages d))"

definition remember :: "int \<Rightarrow> int \<Rightarrow> string \<Rightarrow> world \<Rightarrow> world" where
  "remember chat mid sc w =
     on_db (\<lambda>d. d\<lparr>messages := messages d @ [\<lparr>chat_id = chat, message_id = mid, scope = sc\<rparr>]\<rparr>) w"

text \<open>The loop \<open>for r in rows: try: delete_message ... except Exception: pass\<close>.\<close>

fun delete_each :: "int \<Rightarrow> int list \<Rightarrow> transport \<Rightarrow> transport" where
  "delete_each chat [] t = t"
| "delete_each chat (mid # mids) t = delete_each chat mids (snd (delete_message chat mid t))"

definition delete_scope :: "int \<Rightarrow> string \<Rightarrow> world \<Rightarrow> world" where
  "delete_scope chat sc w =
     (let rows = recorded (db w) chat sc;
          w1 = w\<lparr>bot := delete_each chat rows (bot w)\<rparr>
      in on_db (\<lambda>d. d\<lparr>messages := filter (\<lambda>r. \<not> (chat_id r = chat \<and> scope r = sc)) (messages d)\<rparr>) w1)"

definition clear_all :: "int \<Rightarrow> world \<Rightarrow> world" where
  "clear_all chat w =
     (let rows = map message_id (filter (\<lambda>r. chat_id r = chat) (messages (db w)));
          w1 = w\<lparr>bot := delete_each chat rows (bot w)\<rparr>
      in on_db (\<lambda>d. d\<lparr>messages := filter (\<lambda>r. chat_id r \<noteq> chat) (messages d)\<rparr>) w1)"

text \<open>
  A send followed by \<open>remember\<close>: the pattern \<open>m = await bot.send_...; await
  remember(update, m.message_id, scope)\<close>. A failed send raises before \<open>remember\<close>.
\<close>

definition send_and_remember ::
  "(transport \<Rightarrow> (error + int) \<times> transport) \<Rightarrow> int \<Rightarrow> string \<Rightarrow> world \<Rightarrow> (error + int) \<times> world" where
  "send_and_remember snd_call chat sc w =
     (let (r, t) = snd_call (bot w);
          w1 = w\<lparr>bot := t\<rparr>
      in case r of
           Inl e \<Rightarrow> (Inl e, w1)
         | Inr mid \<Rightarrow> (Inr mid, remember chat mid sc w1))"

definition replace_menu_m :: "int \<Rightarrow> markup \<Rightarrow> string \<Rightarrow> world \<Rightarrow> (error + int) \<times> world" where
  \<comment> \<open>\<open>replace_menu\<close>, returning the id of the message \<open>m\<close> it returns\<close>
  "replace_menu_m chat kb sc w =
     send_and_remember (send_message chat kb) chat sc (delete_scope chat sc w)"

definition finish :: "(error + 'a) \<times> world \<Rightarrow> outcome \<times> world" where
  \<comment> \<open>a call whose result the caller drops\<close>
  "finish r = (case r of (Inl e, w) \<Rightarrow> (Raised e, w) | (Inr x, w) \<Rightarrow> (Done, w))"

definition replace_menu :: "int \<Rightarrow> markup \<Rightarrow> string \<Rightarrow> handler" where
  "replace_menu chat kb sc w = finish (replace_menu_m chat kb sc w)"

section \<open>Users and roles (core_helpers.py)\<close>

definition is_admin :: "env \<Rightarrow> int \<Rightarrow> bool" where
  "is_admin E u = (u \<in> set (admin_ids E))"

definition editor_row_of :: "store \<Rightarrow> int \<Rightarrow> editor_row option" where
  \<comment> \<open>\<open>_editor_row\<close>\<close>
  "editor_row_of d u = find (\<lambda>r. e_user_id r = u) (editors d)"

definition col_map :: "string \<Rightarrow> (editor_row \<Rightarrow> int) option" where
  "col_map perm =
     (if perm = ''cats'' then Some perm_cats
      else if perm = ''prods'' then Some perm_prods
      else if perm = ''photos'' then Some perm_photos
      else if perm = ''links'' then Some perm_links
      else if perm = ''welcome'' then Some perm_welcome
      else if perm = ''reserve'' then Some perm_reserve
      else None)"

definition has_perm :: "env \<Rightarrow> store \<Rightarrow> int \<Rightarrow> string \<Rightarrow> bool" where
  "has_perm E d u perm =
     (if is_admin E u then True
      else (case editor_row_of d u of
              None \<Rightarrow> False
            | Some row \<Rightarrow>
                if e_is_active row = 0 then False
                else (case col_map perm of
                        None \<Rightarrow> False
                      | Some col \<Rightarrow> col row \<noteq> 0)))"

definition require_staff :: "env \<Rightarrow> store \<Rightarrow> update \<Rightarrow> bool" where
  "require_staff E d upd =
     (case effective_user upd of
        None \<Rightarrow> False
      | Some user \<Rightarrow>
          if is_admin E (tg_id user) then True
          else (case editor_row_of d (tg_id user) of
                  None \<Rightarrow> False
                | Some row \<Rightarrow> e_is_active row \<noteq> 0))"

definition or_empty :: "string option \<Rightarrow> string" where
  \<comment> \<open>\<open>x or ""\<close>\<close>
  "or_empty x = (case x of None \<Rightarrow> [] | Some s \<Rightarrow> s)"

fun upsert_user :: "user_row \<Rightarrow> user_row list \<Rightarrow> user_row list" where
  "upsert_user r [] = [r]"
| "upsert_user r (x # xs) =
     (if u_user_id x = u_user_id r then r # xs else x # upsert_user r xs)"

definition touch_user :: "update \<Rightarrow> store \<Rightarrow> store" where
  "touch_user upd d =
     (case effective_user upd of
        None \<Rightarrow> d
      | Some user \<Rightarrow>
          d\<lparr>users := upsert_user
                \<lparr>u_user_id = tg_id user,
                 u_username = strip (or_empty (tg_username user)),
                 u_first_name = or_empty (tg_first_name user),
                 u_last_name = or_empty (tg_last_name user),
                 u_updated_at = clock upd\<rparr> (users d)\<rparr>)"

text \<open>\<open>update.effective_user.id\<close>, which raises when the update has no user.\<close>

definition user_id_of :: "update \<Rightarrow> error + int" where
  "user_id_of upd = (case effective_user upd of None \<Rightarrow> Inl AttributeError | Some user \<Rightarrow> Inr (tg_id user))"

section \<open>Queries\<close>

definition py_slice :: "'a list \<Rightarrow> int \<Rightarrow> int \<Rightarrow> 'a list" where
  \<comment> \<open>\<open>xs[a:b]\<close>: a negative bound counts from the end, every bound is clamped\<close>
  "py_slice xs a b =
     (let n = int (length xs);
          lo = (if a < 0 then max (n + a) 0 else min a n);
          hi = (if b < 0 then max (n + b) 0 else min b n)
      in take (nat (hi - lo)) (drop (nat lo) xs))"

definition all_categories :: "store \<Rightarrow> cat_row list" where
  \<comment> \<open>\<open>SELECT * FROM categories ORDER BY id\<close>\<close>
  "all_categories d = sort_key c_id (categories d)"

definition all_products :: "store \<Rightarrow> prod_row list" where
  \<comment> \<open>\<open>SELECT * FROM products ORDER BY id\<close>\<close>
  "all_products d = sort_key p_id (products d)"

definition category_by_id :: "store \<Rightarrow> int \<Rightarrow> cat_row option" where
  "category_by_id d cid = find (\<lambda>c. c_id c = cid) (categories d)"

definition product_by_id :: "store \<Rightarrow> int \<Rightarrow> prod_row option" where
  "product_by_id d pid = find (\<lambda>p. p_id p = pid) (products d)"

definition products_of_category :: "store \<Rightarrow> int \<Rightarrow> prod_row list" where
  \<comment> \<open>\<open>SELECT p.* FROM products p JOIN product_categories pc ON pc.product_id=p.id
      WHERE pc.category_id=? ORDER BY p.id\<close>\<close>
  "products_of_category d cid =
     filter (\<lambda>p. (p_id p, cid) \<in> set (product_categories d)) (all_products d)"

definition product_variants_of :: "store \<Rightarrow> int \<Rightarrow> variant_row list" where
  \<comment> \<open>\<open>product_variants(pid)\<close>\<close>
  "product_variants_of d pid = filter (\<lambda>v. v_product_id v = pid) (sort_key v_id (product_variants d))"

definition product_categories_of :: "store \<Rightarrow> int \<Rightarrow> cat_row list" where
  \<comment> \<open>\<open>product_categories(pid)\<close>\<close>
  "product_categories_of d pid =
     filter (\<lambda>c. (pid, c_id c) \<in> set (product_categories d)) (all_categories d)"

definition photos_of :: "store \<Rightarrow> int \<Rightarrow> string list" where
  \<comment> \<open>\<open>SELECT file_id FROM photos WHERE product_id=? ORDER BY id\<close>\<close>
  "photos_of d pid = map ph_file_id (filter (\<lambda>r. ph_product_id r = pid) (sort_key ph_id (photos d)))"

definition load_links :: "env \<Rightarrow> store \<Rightarrow> error + link list" where
  "load_links E d = load_links_of (container_repr E) (links_json d)"

definition save_links :: "link list \<Rightarrow> store \<Rightarrow> store" where
  "save_links arr d = d\<lparr>links_json := Document (JArr (map link_json arr))\<rparr>"

definition public_links :: "env \<Rightarrow> store \<Rightarrow> error + link list" where
  "public_links E d =
     (case load_links E d of
        Inl e \<Rightarrow> Inl e
      | Inr ls \<Rightarrow> Inr (filter (\<lambda>b. l_active b \<noteq> 0) ls))"

section \<open>Keyboards (admin_bot.py)\<close>

definition nav_row :: "button list \<Rightarrow> markup" where
  \<comment> \<open>\<open>if nav: rows.append(nav)\<close>\<close>
  "nav_row nav = (if nav = [] then [] else [nav])"

definition kb_home :: "env \<Rightarrow> store \<Rightarrow> error + markup" where
  "kb_home E d =
     (case public_links E d of
        Inl e \<Rightarrow> Inl e
      | Inr ls \<Rightarrow>
          Inr ([[CallbackButton ''shop:cats:0'']]
               @ map (\<lambda>b. [UrlButton (l_url b)]) ls
               @ [[CallbackButton ''shop:clear'']]))"

definition kb_cats :: "store \<Rightarrow> int \<Rightarrow> int \<Rightarrow> markup" where
  "kb_cats d page per =
     (let cats = filter (\<lambda>c. c_is_active c = 1) (all_categories d);
          start = page * per;
          rows = map (\<lambda>c. [CallbackButton (''shop:cat:'' @ show_int (c_id c) @ '':'' @ show_int page)])
                     (py_slice cats start (start + per));
          nav = (if start > 0 then [CallbackButton (''shop:cats:'' @ show_int (max 0 (page - 1)))] else [])
              @ (if start + per < int (length cats)
                 then [CallbackButton (''shop:cats:'' @ show_int (page + 1))] else [])
      in rows @ nav_row nav @ [[CallbackButton ''shop:home'']])"

definition kb_adm_home :: "bool \<Rightarrow> markup" where
  "kb_adm_home is_admin_user =
     [[CallbackButton ''adm:cats:0'', CallbackButton ''adm:prods:0''],
      [CallbackButton ''adm:links''],
      [CallbackButton ''adm:welcome''],
      [CallbackButton ''adm:reserve'']]
     @ (if is_admin_user then [[CallbackButton ''adm:editors'']] else [])
     @ [[CallbackButton ''adm:data'']]"

definition kb_adm_cats :: "store \<Rightarrow> int \<Rightarrow> int \<Rightarrow> markup" where
  "kb_adm_cats d page per =
     (let cats = all_categories d;
          start = page * per;
          rows = map (\<lambda>c. [CallbackButton (''adm:cat:'' @ show_int (c_id c))])
                     (py_slice cats start (start + per));
          nav = (if start > 0 then [CallbackButton (''adm:cats:'' @ show_int (max 0 (page - 1)))] else [])
              @ (if start + per < int (length cats)
                 then [CallbackButton (''adm:cats:'' @ show_int (page + 1))] else [])
      in rows @ nav_row nav @ [[CallbackButton ''adm:cat:add''], [CallbackButton ''adm:home'']])"

definition kb_adm_cat :: "int \<Rightarrow> markup" where
  "kb_adm_cat cat =
     [[CallbackButton (''adm:cat:rename:'' @ show_int cat)],
      [CallbackButton (''adm:cat:toggle:'' @ show_int cat)],
      [CallbackButton (''adm:cat:delete:'' @ show_int cat)],
      [CallbackButton ''adm:cats:0'']]"

definition kb_adm_prods_cats :: "store \<Rightarrow> int \<Rightarrow> int \<Rightarrow> markup" where
  "kb_adm_prods_cats d page per =
     (let cats = all_categories d;
          start = page * per;
          rows = map (\<lambda>c. [CallbackButton (''adm:prods:cat:'' @ show_int (c_id c) @ '':0'')])
                     (py_slice cats start (start + per));
          nav = (if start > 0 then [CallbackButton (''adm:prods:'' @ show_int (max 0 (page - 1)))] else [])
              @ (if start + per < int (length cats)
                 then [CallbackButton (''adm:prods:'' @ show_int (page + 1))] else [])
      in rows @ nav_row nav @ [[CallbackButton ''adm:home'']])"

definition kb_adm_prods_list :: "store \<Rightarrow> int \<Rightarrow> int \<Rightarrow> markup" where
  "kb_adm_prods_list d page per =
     (let prods = all_products d;
          start = page * per;
          rows = map (\<lambda>p. [CallbackButton (''adm:prod:'' @ show_int (p_id p))])
                     (py_slice prods start (start + per));
          nav = (if start > 0 then [CallbackButton (''adm:prods:'' @ show_int (max 0 (page - 1)))] else [])
              @ (if start + per < int (length prods)
                 then [CallbackButton (''adm:prods:'' @ show_int (page + 1))] else [])
      in rows @ nav_row nav @ [[CallbackButton ''adm:prod:add''], [CallbackButton ''adm:home'']])"

definition kb_adm_prods :: "store \<Rightarrow> int \<Rightarrow> int \<Rightarrow> int \<Rightarrow> markup" where
  "kb_adm_prods d cat page per =
     (let prods = products_of_category d cat;
          start = page * per;
          rows = map (\<lambda>p. [CallbackButton (''adm:prod:'' @ show_int (p_id p))])
                     (py_slice prods start (start + per));
          nav = (if start > 0
                 then [CallbackButton (''adm:prods:cat:'' @ show_int cat @ '':'' @ show_int (max 0 (page - 1)))]
                 else [])
              @ (if start + per < int (length prods)
                 then [CallbackButton (''adm:prods:cat:'' @ show_int cat @ '':'' @ show_int (page + 1))]
                 else [])
      in rows @ nav_row nav
         @ [[CallbackButton (''adm:prod:add:'' @ show_int cat)], [CallbackButton ''adm:prods:0'']])"

definition kb_adm_prod :: "int \<Rightarrow> markup" where
  "kb_adm_prod pid =
     [[CallbackButton (''adm:prod:edit:name:'' @ show_int pid),
       CallbackButton (''adm:prod:edit:desc:'' @ show_int pid)],
      [CallbackButton (''adm:prod:cats:edit:'' @ show_int pid),
       CallbackButton (''adm:prod:variants:'' @ show_int pid)],
      [CallbackButton (''adm:prod:toggle:'' @ show_int pid)],
      [CallbackButton (''adm:photo:add:'' @ show_int pid),
       CallbackButton (''adm:photo:clear:'' @ show_int pid)],
      [CallbackButton (''adm:prod:delete:'' @ show_int pid)],
      [CallbackButton ''adm:prods:0'']]"

definition kb_adm_prod_variants :: "store \<Rightarrow> int \<Rightarrow> markup" where
  "kb_adm_prod_variants d pid =
     map (\<lambda>v. [CallbackButton (''adm:variant:'' @ show_int pid @ '':'' @ show_int (v_id v))])
         (product_variants_of d pid)
     @ [[CallbackButton (''adm:variant:add:'' @ show_int pid)],
        [CallbackButton (''adm:prod:'' @ show_int pid)]]"

definition kb_adm_variant :: "int \<Rightarrow> int \<Rightarrow> markup" where
  "kb_adm_variant pid vid =
     [[CallbackButton (''adm:variant:edit:name:'' @ show_int pid @ '':'' @ show_int vid),
       CallbackButton (''adm:variant:edit:stock:'' @ show_int pid @ '':'' @ show_int vid)],
      [CallbackButton (''adm:variant:delete:'' @ show_int pid @ '':'' @ show_int vid)],
      [CallbackButton (''adm:prod:variants:'' @ show_int pid)]]"

definition kb_adm_prod_categories :: "store \<Rightarrow> int \<Rightarrow> markup" where
  \<comment> \<open>the set \<open>selected\<close> only picks the mark of a label\<close>
  "kb_adm_prod_categories d pid =
     map (\<lambda>c. [CallbackButton (''adm:prod:cats:toggle:'' @ show_int pid @ '':'' @ show_int (c_id c))])
         (all_categories d)
     @ [[CallbackButton (''adm:prod:cats:done:'' @ show_int pid)],
        [CallbackButton (''adm:prod:'' @ show_int pid)]]"

definition kb_links_manage :: "env \<Rightarrow> store \<Rightarrow> error + markup" where
  "kb_links_manage E d =
     (case load_links E d of
        Inl e \<Rightarrow> Inl e
      | Inr arr \<Rightarrow>
          Inr ([[CallbackButton ''adm:links:add'']]
               @ map (\<lambda>i. [CallbackButton (''adm:links:edit:'' @ show_int (int i))]) [0 ..< length arr]
               @ [[CallbackButton ''adm:home'']]))"

definition kb_link_edit :: "int \<Rightarrow> markup" where
  "kb_link_edit i =
     [[CallbackButton (''adm:links:txt:'' @ show_int i), CallbackButton (''adm:links:url:'' @ show_int i)],
      [CallbackButton (''adm:links:up:'' @ show_int i), CallbackButton (''adm:links:dn:'' @ show_int i)],
      [CallbackButton (''adm:links:toggle:'' @ show_int i), CallbackButton (''adm:links:del:'' @ show_int i)],
      [CallbackButton ''adm:links'']]"

definition kb_data :: markup where
  "kb_data =
     [[CallbackButton ''adm:data:import''],
      [CallbackButton ''adm:data:export''],
      [CallbackButton ''adm:data:backup''],
      [CallbackButton ''adm:data:downloaddb''],
      [CallbackButton ''adm:home'']]"

definition kb_editor :: "int \<Rightarrow> markup" where
  "kb_editor u =
     [[CallbackButton (''adm:editor:toggle:'' @ show_int u)],
      [CallbackButton (''adm:editor:perm:cats:'' @ show_int u),
       CallbackButton (''adm:editor:perm:prods:'' @ show_int u),
       CallbackButton (''adm:editor:perm:photos:'' @ show_int u)],
      [CallbackButton (''adm:editor:perm:links:'' @ show_int u),
       CallbackButton (''adm:editor:perm:welcome:'' @ show_int u),
       CallbackButton (''adm:editor:perm:reserve:'' @ show_int u)],
      [CallbackButton (''adm:editor:del:'' @ show_int u)],
      [CallbackButton ''adm:editors'']]"

definition kb_back :: "string \<Rightarrow> markup" where
  \<comment> \<open>the one-button keyboards of the prompts\<close>
  "kb_back target = [[CallbackButton target]]"

section \<open>Reservation link (core_helpers.py)\<close>

definition reserve_enabled :: "store \<Rightarrow> bool" where
  "reserve_enabled d = (setting_or d ''reserve_enabled'' ''0'' = ''1'')"

text \<open>\<open>re.search(r"t\.me/([^/?#]+)", raw)\<close>: the group of the leftmost match.\<close>

fun tme_search :: "string \<Rightarrow> string option" where
  "tme_search [] = None"
| "tme_search (c # cs) =
     (let g = takeWhile (\<lambda>x. x \<notin> set ''/?#'') (drop 5 (c # cs))
      in if startswith (c # cs) ''t.me/'' \<and> g \<noteq> [] then Some g else tme_search cs)"

definition normalize_tg_username :: "string \<Rightarrow> string" where
  "normalize_tg_username raw0 =
     (let raw = strip raw0
      in if raw = [] then []
         else if startswith raw ''@'' then tl raw
         else (case tme_search raw of Some g \<Rightarrow> g | None \<Rightarrow> raw))"

definition reserve_url_for :: "env \<Rightarrow> store \<Rightarrow> prod_row \<Rightarrow> string option" where
  "reserve_url_for E d pr =
     (if \<not> reserve_enabled d then None
      else (let username = normalize_tg_username (setting_or d ''reserve_tg_username'' [])
            in if username = [] then None
               else Some (reserve_link E username (get_setting d ''reserve_msg_tpl'') (p_id pr) (p_name pr))))"

section \<open>Staff screens (admin_bot.py)\<close>

definition gated :: "env \<Rightarrow> update \<Rightarrow> string \<Rightarrow> handler \<Rightarrow> handler" where
  \<comment> \<open>\<open>if not has_perm(update.effective_user.id, perm): return\<close>, then the body\<close>
  "gated E upd perm body w =
     (case user_id_of upd of
        Inl e \<Rightarrow> (Raised e, w)
      | Inr u \<Rightarrow> if has_perm E (db w) u perm then body w else (Done, w))"

definition admin_gated :: "env \<Rightarrow> update \<Rightarrow> handler \<Rightarrow> handler" where
  \<comment> \<open>\<open>if not is_admin(update.effective_user.id): return\<close>, then the body\<close>
  "admin_gated E upd body w =
     (case user_id_of upd of
        Inl e \<Rightarrow> (Raised e, w)
      | Inr u \<Rightarrow> if is_admin E u then body w else (Done, w))"

definition adm_open_cats :: "env \<Rightarrow> update \<Rightarrow> int \<Rightarrow> handler" where
  "adm_open_cats E upd page =
     gated E upd ''cats''
       (\<lambda>w. replace_menu (effective_chat upd) (kb_adm_cats (db w) page 12) ''admin'' w)"

definition adm_open_cat :: "env \<Rightarrow> update \<Rightarrow> int \<Rightarrow> handler" where
  "adm_open_cat E upd cat =
     gated E upd ''cats''
       (\<lambda>w. case category_by_id (db w) cat of
               None \<Rightarrow> adm_open_cats E upd 0 w
             | Some c \<Rightarrow> replace_menu (effective_chat upd) (kb_adm_cat (c_id c)) ''admin'' w)"

definition adm_open_prods_list :: "env \<Rightarrow> update \<Rightarrow> int \<Rightarrow> handler" where
  "adm_open_prods_list E upd page =
     gated E upd ''prods''
       (\<lambda>w. replace_menu (effective_chat upd) (kb_adm_prods_list (db w) page 10) ''admin'' w)"

definition adm_open_prods :: "env \<Rightarrow> update \<Rightarrow> int \<Rightarrow> int \<Rightarrow> handler" where
  "adm_open_prods E upd cat page =
     gated E upd ''prods''
       (\<lambda>w. replace_menu (effective_chat upd) (kb_adm_prods (db w) cat page 10) ''admin'' w)"

text \<open>
  The photo preview of \<open>adm_open_prod\<close>: a failed \<open>send_media_group\<close> is logged and
  swallowed.
\<close>

definition photos_preview :: "int \<Rightarrow> string list \<Rightarrow> world \<Rightarrow> world" where
  "photos_preview chat files w =
     (if files = [] then w
      else (let (r, t) = send_media_group chat (take 10 files) (bot w);
                w1 = w\<lparr>bot := t\<rparr>
            in case r of
                 Inl e \<Rightarrow> w1
               | Inr mids \<Rightarrow> fold (\<lambda>mid. remember chat mid ''admin'') mids w1))"

definition adm_open_prod :: "env \<Rightarrow> update \<Rightarrow> int \<Rightarrow> handler" where
  "adm_open_prod E upd pid =
     gated E upd ''prods''
       (\<lambda>w. let chat = effective_chat upd;
                 w1 = (if prod_cats_pid (ud w) = Some pid
                       then on_ud (\<lambda>x. x\<lparr>prod_cats_pid := None, prod_cats_selected := None\<rparr>) w
                       else w);
                 w2 = delete_scope chat ''admin'' w1
             in case product_by_id (db w2) pid of
                  None \<Rightarrow> finish (send_and_remember (send_message chat []) chat ''admin'' w2)
                | Some pr \<Rightarrow>
                    finish (send_and_remember (send_message chat (kb_adm_prod pid)) chat ''admin''
                              (photos_preview chat (photos_of (db w2) pid) w2)))"

definition adm_open_prod_variants :: "env \<Rightarrow> update \<Rightarrow> int \<Rightarrow> handler" where
  "adm_open_prod_variants E upd pid =
     gated E upd ''prods''
       (\<lambda>w. replace_menu (effective_chat upd) (kb_adm_prod_variants (db w) pid) ''admin'' w)"

definition adm_open_variant :: "env \<Rightarrow> update \<Rightarrow> int \<Rightarrow> int \<Rightarrow> handler" where
  "adm_open_variant E upd pid vid =
     gated E upd ''prods''
       (\<lambda>w. case find (\<lambda>v. v_id v = vid \<and> v_product_id v = pid) (product_variants (db w)) of
               None \<Rightarrow> adm_open_prod_variants E upd pid w
             | Some v \<Rightarrow> replace_menu (effective_chat upd) (kb_adm_variant pid vid) ''admin'' w)"

definition adm_open_links :: "env \<Rightarrow> update \<Rightarrow> handler" where
  "adm_open_links E upd =
     gated E upd ''links''
       (\<lambda>w. case kb_links_manage E (db w) of
               Inl e \<Rightarrow> (Raised e, w)
             | Inr kb \<Rightarrow> replace_menu (effective_chat upd) kb ''admin'' w)"

definition kb_reserve :: markup where
  "kb_reserve =
     [[CallbackButton ''adm:reserve:toggle''],
      [CallbackButton ''adm:reserve:text''],
      [CallbackButton ''adm:reserve:username''],
      [CallbackButton ''adm:reserve:tpl''],
      [CallbackButton ''adm:home'']]"

definition adm_open_reserve :: "env \<Rightarrow> update \<Rightarrow> handler" where
  "adm_open_reserve E upd =
     gated E upd ''reserve'' (\<lambda>w. replace_menu (effective_chat upd) kb_reserve ''admin'' w)"

definition adm_open_data :: "env \<Rightarrow> update \<Rightarrow> handler" where
  "adm_open_data E upd =
     admin_gated E upd (\<lambda>w. replace_menu (effective_chat upd) kb_data ''admin'' w)"

definition kb_editors :: "store \<Rightarrow> markup" where
  "kb_editors d =
     [[CallbackButton ''adm:editor:add'']]
     @ map (\<lambda>r. [CallbackButton (''adm:editor:edit:'' @ show_int (e_user_id r))])
           (sort_key e_user_id (editors d))
     @ [[CallbackButton ''adm:home'']]"

definition adm_open_editors :: "env \<Rightarrow> update \<Rightarrow> handler" where
  "adm_open_editors E upd =
     admin_gated E upd (\<lambda>w. replace_menu (effective_chat upd) (kb_editors (db w)) ''admin'' w)"

definition adm_open_editor :: "env \<Rightarrow> update \<Rightarrow> int \<Rightarrow> handler" where
  "adm_open_editor E upd u =
     admin_gated E upd
       (\<lambda>w. case editor_row_of (db w) u of
               None \<Rightarrow> adm_open_editors E upd w
             | Some row \<Rightarrow> replace_menu (effective_chat upd) (kb_editor u) ''admin'' w)"

section \<open>The shop for clients (admin_bot.py)\<close>

definition first_photo :: "store \<Rightarrow> int \<Rightarrow> string option" where
  \<comment> \<open>\<open>SELECT file_id FROM photos WHERE product_id=? ORDER BY id LIMIT 1\<close>\<close>
  "first_photo d pid = (case photos_of d pid of [] \<Rightarrow> None | f # fs \<Rightarrow> Some f)"

definition send_card :: "int \<Rightarrow> string option \<Rightarrow> markup \<Rightarrow> world \<Rightarrow> (error + int) \<times> world" where
  \<comment> \<open>a product card: a photo with caption when the product has one, a message otherwise\<close>
  "send_card chat ph kb w =
     (case ph of
        Some file \<Rightarrow> send_and_remember (send_photo chat file kb) chat ''shop'' w
      | None \<Rightarrow> send_and_remember (send_message chat kb) chat ''shop'' w)"

text \<open>The loop \<open>for p in items\<close> of \<open>show_shop_grid\<close>; a failed send ends it.\<close>

fun send_items :: "int \<Rightarrow> int \<Rightarrow> prod_row list \<Rightarrow> handler" where
  "send_items chat cat [] w = (Done, w)"
| "send_items chat cat (p # ps) w =
     and_then
       (finish (send_card chat (first_photo (db w) (p_id p))
                  [[CallbackButton (''shop:prod:'' @ show_int cat @ '':'' @ show_int (p_id p))]] w))
       (send_items chat cat ps)"

definition active_products_of_category :: "store \<Rightarrow> int \<Rightarrow> prod_row list" where
  \<comment> \<open>the query of \<open>show_shop_grid\<close>: \<open>... WHERE p.is_active=1 AND pc.category_id=? ORDER BY p.id\<close>\<close>
  "active_products_of_category d cat = filter (\<lambda>p. p_is_active p = 1) (products_of_category d cat)"

definition grid_page :: "int \<Rightarrow> int \<Rightarrow> int \<Rightarrow> int" where
  \<comment> \<open>the page \<open>show_shop_grid\<close> renders, for \<open>total > 0\<close>\<close>
  "grid_page tot per page =
     (let max_page = (tot - 1) div per;
          page1 = (if page < 0 then 0 else page)
      in if page1 > max_page then max_page else page1)"

definition grid_nav :: "int \<Rightarrow> int \<Rightarrow> int \<Rightarrow> int \<Rightarrow> markup" where
  \<comment> \<open>\<open>nav_buttons\<close> of \<open>show_shop_grid\<close>, for the clamped page\<close>
  "grid_nav cat tot per page =
     (let max_page = (tot - 1) div per;
          row_nav = (if page > 0 then [CallbackButton (''shop:cat:'' @ show_int cat @ '':'' @ show_int (page - 1))] else [])
                  @ (if page < max_page then [CallbackButton (''shop:cat:'' @ show_int cat @ '':'' @ show_int (page + 1))] else [])
      in nav_row row_nav @ [[CallbackButton ''shop:cats:0''], [CallbackButton ''shop:home'']])"

definition show_shop_grid :: "update \<Rightarrow> int \<Rightarrow> int \<Rightarrow> handler" where
  "show_shop_grid upd cat page0 w0 =
     (let chat = effective_chat upd;
          w = delete_scope chat ''shop'' w0;
          prods = active_products_of_category (db w) cat;
          per = 4;
          tot = int (length prods)
      in if tot = 0
         then finish (send_and_remember
                        (send_message chat [[CallbackButton ''shop:cats:0''], [CallbackButton ''shop:home'']])
                        chat ''shop'' w)
         else (let page = grid_page tot per page0;
                   start = page * per;
                   items = py_slice prods start (start + per)
               in and_then (send_items chat cat items w)
                    (\<lambda>w1. finish (send_and_remember (send_message chat (grid_nav cat tot per page))
                                      chat ''shop'' w1))))"

definition show_shop_product :: "env \<Rightarrow> update \<Rightarrow> int \<Rightarrow> int \<Rightarrow> handler" where
  "show_shop_product E upd cat pid w0 =
     (let chat = effective_chat upd;
          w = delete_scope chat ''shop'' w0
      in case product_by_id (db w) pid of
           None \<Rightarrow> finish (send_and_remember (send_message chat []) chat ''shop'' w)
         | Some pr \<Rightarrow>
             (let rows = (case reserve_url_for E (db w) pr of
                            None \<Rightarrow> []
                          | Some u \<Rightarrow> [[UrlButton u]])
                       @ [[CallbackButton (''shop:cat:'' @ show_int cat @ '':0'')],
                          [CallbackButton ''shop:home'']]
              in finish (send_card chat (first_photo (db w) pid) rows w)))"

section \<open>Statements that change the catalog\<close>

text \<open>
  Every connection runs \<open>PRAGMA foreign_keys=ON\<close>, so the foreign keys of \<open>init_db\<close>
  are enforced: an insert whose parent row is missing fails, and a delete cascades along
  every \<open>ON DELETE CASCADE\<close>. Integers are unbounded (the 64-bit range of SQLite is not
  modelled).
\<close>

definition delete_products_where :: "(prod_row \<Rightarrow> bool) \<Rightarrow> store \<Rightarrow> store" where
  \<comment> \<open>\<open>DELETE FROM products WHERE ...\<close>: cascades to \<open>product_categories\<close>, \<open>photos\<close>
      and \<open>product_variants\<close>\<close>
  "delete_products_where P d =
     (let gone = map p_id (filter P (products d))
      in d\<lparr>products := filter (\<lambda>p. \<not> P p) (products d),
            product_categories := filter (\<lambda>r. fst r \<notin> set gone) (product_categories d),
            photos := filter (\<lambda>r. ph_product_id r \<notin> set gone) (photos d),
            product_variants := filter (\<lambda>r. v_product_id r \<notin> set gone) (product_variants d)\<rparr>)"

definition delete_product :: "int \<Rightarrow> store \<Rightarrow> store" where
  \<comment> \<open>\<open>DELETE FROM products WHERE id=?\<close>\<close>
  "delete_product pid d = delete_products_where (\<lambda>p. p_id p = pid) d"

definition delete_memberships_of_category :: "int \<Rightarrow> store \<Rightarrow> store" where
  \<comment> \<open>\<open>DELETE FROM product_categories WHERE category_id=?\<close>\<close>
  "delete_memberships_of_category cid d =
     d\<lparr>product_categories := filter (\<lambda>r. snd r \<noteq> cid) (product_categories d)\<rparr>"

definition delete_memberships_of_product :: "int \<Rightarrow> store \<Rightarrow> store" where
  \<comment> \<open>\<open>DELETE FROM product_categories WHERE product_id=?\<close>\<close>
  "delete_memberships_of_product pid d =
     d\<lparr>product_categories := filter (\<lambda>r. fst r \<noteq> pid) (product_categories d)\<rparr>"

definition delete_category :: "int \<Rightarrow> store \<Rightarrow> store" where
  \<comment> \<open>\<open>DELETE FROM categories WHERE id=?\<close>: cascades to \<open>product_categories.category_id\<close>
      and to \<open>products.category_id\<close>, and from the deleted products on\<close>
  "delete_category cid d =
     (if category_by_id d cid = None then d
      else delete_products_where (\<lambda>p. p_category_id p = Some cid)
             (delete_memberships_of_category cid
                (d\<lparr>categories := filter (\<lambda>c. c_id c \<noteq> cid) (categories d)\<rparr>)))"

definition toggle_category :: "int \<Rightarrow> store \<Rightarrow> store" where
  \<comment> \<open>\<open>UPDATE categories SET is_active=? WHERE id=?\<close> with \<open>0 if r[0]["is_active"] else 1\<close>\<close>
  "toggle_category cid d =
     d\<lparr>categories := map (\<lambda>c. if c_id c = cid then c\<lparr>c_is_active := (if c_is_active c \<noteq> 0 then 0 else 1)\<rparr> else c)
                          (categories d)\<rparr>"

definition toggle_product :: "int \<Rightarrow> store \<Rightarrow> store" where
  "toggle_product pid d =
     d\<lparr>products := map (\<lambda>p. if p_id p = pid then p\<lparr>p_is_active := (if p_is_active p \<noteq> 0 then 0 else 1)\<rparr> else p)
                        (products d)\<rparr>"

definition insert_category :: "string \<Rightarrow> store \<Rightarrow> store" where
  \<comment> \<open>\<open>INSERT INTO categories(name,is_active) VALUES(?,1)\<close>\<close>
  "insert_category nm d =
     (let i = next_id (map c_id (categories d)) (seq_categories d)
      in d\<lparr>categories := categories d @ [\<lparr>c_id = i, c_name = nm, c_is_active = 1\<rparr>],
            seq_categories := i\<rparr>)"

definition rename_category :: "int \<Rightarrow> string \<Rightarrow> store \<Rightarrow> store" where
  "rename_category cid nm d =
     d\<lparr>categories := map (\<lambda>c. if c_id c = cid then c\<lparr>c_name := nm\<rparr> else c) (categories d)\<rparr>"

definition insert_product :: "string \<Rightarrow> string \<Rightarrow> string \<Rightarrow> store \<Rightarrow> int \<times> store" where
  \<comment> \<open>\<open>INSERT INTO products(name,description,price,stock,is_active) VALUES(?,?,0,0,1)\<close>,
      with \<open>lastrowid\<close>\<close>
  "insert_product nm desc t d =
     (let i = next_id (map p_id (products d)) (seq_products d)
      in (i, d\<lparr>products := products d @
                  [\<lparr>p_id = i, p_category_id = None, p_name = nm, p_description = Some desc,
                    p_price = 0, p_stock = 0, p_is_active = 1, p_created_at = t\<rparr>],
                seq_products := i\<rparr>))"

definition rename_product :: "int \<Rightarrow> string \<Rightarrow> store \<Rightarrow> store" where
  "rename_product pid nm d =
     d\<lparr>products := map (\<lambda>p. if p_id p = pid then p\<lparr>p_name := nm\<rparr> else p) (products d)\<rparr>"

definition describe_product :: "int \<Rightarrow> string \<Rightarrow> store \<Rightarrow> store" where
  "describe_product pid desc d =
     d\<lparr>products := map (\<lambda>p. if p_id p = pid then p\<lparr>p_description := Some desc\<rparr> else p) (products d)\<rparr>"

definition insert_membership :: "int \<Rightarrow> int \<Rightarrow> store \<Rightarrow> error + store" where
  \<comment> \<open>\<open>INSERT INTO product_categories(product_id,category_id) VALUES(?,?)\<close>\<close>
  "insert_membership pid cid d =
     (if (pid, cid) \<in> set (product_categories d) then Inl IntegrityError
      else if product_by_id d pid = None \<or> category_by_id d cid = None then Inl IntegrityError
      else Inr (d\<lparr>product_categories := product_categories d @ [(pid, cid)]\<rparr>))"

definition insert_variant :: "int \<Rightarrow> string \<Rightarrow> int \<Rightarrow> store \<Rightarrow> error + store" where
  \<comment> \<open>\<open>INSERT INTO product_variants(product_id,name,stock) VALUES(?,?,?)\<close>\<close>
  "insert_variant pid nm st d =
     (if product_by_id d pid = None then Inl IntegrityError
      else (let i = next_id (map v_id (product_variants d)) (seq_variants d)
            in Inr (d\<lparr>product_variants := product_variants d @
                          [\<lparr>v_id = i, v_product_id = pid, v_name = nm, v_stock = st\<rparr>],
                        seq_variants := i\<rparr>)))"

definition update_variant :: "int \<Rightarrow> int \<Rightarrow> (variant_row \<Rightarrow> variant_row) \<Rightarrow> store \<Rightarrow> store" where
  \<comment> \<open>\<open>UPDATE product_variants SET ... WHERE id=? AND product_id=?\<close>\<close>
  "update_variant vid pid f d =
     d\<lparr>product_variants := map (\<lambda>v. if v_id v = vid \<and> v_product_id v = pid then f v else v)
                                (product_variants d)\<rparr>"

definition delete_variant :: "int \<Rightarrow> int \<Rightarrow> store \<Rightarrow> store" where
  \<comment> \<open>\<open>DELETE FROM product_variants WHERE id=? AND product_id=?\<close>\<close>
  "delete_variant vid pid d =
     d\<lparr>product_variants := filter (\<lambda>v. \<not> (v_id v = vid \<and> v_product_id v = pid)) (product_variants d)\<rparr>"


definition delete_photos_of :: "int \<Rightarrow> store \<Rightarrow> store" where
  \<comment> \<open>\<open>DELETE FROM photos WHERE product_id=?\<close>\<close>
  "delete_photos_of pid d = d\<lparr>photos := filter (\<lambda>r. ph_product_id r \<noteq> pid) (photos d)\<rparr>"

definition exec :: "(store \<Rightarrow> error + store) \<Rightarrow> handler \<Rightarrow> handler" where
  \<comment> \<open>a \<open>db_exec\<close> that can fail, and what follows it\<close>
  "exec stmt k w =
     (case stmt (db w) of
        Inl e \<Rightarrow> (Raised e, w)
      | Inr d \<Rightarrow> k (w\<lparr>db := d\<rparr>))"

section \<open>The callback router \<open>cb\<close> (admin_bot.py)\<close>

definition seg_int :: "string \<Rightarrow> nat \<Rightarrow> error + int" where
  \<comment> \<open>\<open>int(data.split(":")[k])\<close>\<close>
  "seg_int data k =
     (case item (split CHR '':'' data) k of
        Inl e \<Rightarrow> Inl e
      | Inr seg \<Rightarrow> py_int seg)"

definition with_int :: "error + int \<Rightarrow> (int \<Rightarrow> handler) \<Rightarrow> handler" where
  "with_int r body w = (case r of Inl e \<Rightarrow> (Raised e, w) | Inr n \<Rightarrow> body n w)"

definition prompt :: "update \<Rightarrow> (user_data \<Rightarrow> user_data) \<Rightarrow> string \<Rightarrow> handler" where
  \<comment> \<open>arm a continuation, then show the prompt with its one back button\<close>
  "prompt upd f target w = replace_menu (effective_chat upd) (kb_back target) ''admin'' (on_ud f w)"

definition cb_shop :: "env \<Rightarrow> update \<Rightarrow> string \<Rightarrow> world \<Rightarrow> (outcome \<times> world) option" where
  "cb_shop E upd data w =
     (let chat = effective_chat upd
      in if data = ''shop:home''
         then Some (let w2 = delete_scope chat ''home'' (delete_scope chat ''shop'' w)
                    in case kb_home E (db w2) of
                         Inl e \<Rightarrow> (Raised e, w2)
                       | Inr kb \<Rightarrow> replace_menu chat kb ''home'' w2)
         else if data = ''shop:clear''
         then Some (Done, clear_all chat w)
         else if startswith data ''shop:cats:''
         then Some (with_int (seg_int data 2)
                      (\<lambda>page w'. let w1 = delete_scope chat ''shop'' w'
                                  in replace_menu chat (kb_cats (db w1) page 8) ''shop'' w1) w)
         else if startswith data ''shop:cat:''
         then Some (with_int (seg_int data 2)
                      (\<lambda>cat. with_int (seg_int data 3) (\<lambda>page. show_shop_grid upd cat page)) w)
         else if startswith data ''shop:prod:''
         then Some (with_int (seg_int data 2)
                      (\<lambda>cat. with_int (seg_int data 3) (\<lambda>pid. show_shop_product E upd cat pid)) w)
         else None)"

definition cb_adm_cats :: "env \<Rightarrow> update \<Rightarrow> string \<Rightarrow> world \<Rightarrow> (outcome \<times> world) option" where
  "cb_adm_cats E upd data w =
     (if data = ''adm:home''
      then Some (case user_id_of upd of
                   Inl e \<Rightarrow> (Raised e, w)
                 | Inr u \<Rightarrow> replace_menu (effective_chat upd) (kb_adm_home (is_admin E u)) ''admin'' w)
      else if startswith data ''adm:cats:''
      then Some (gated E upd ''cats'' (with_int (seg_int data 2) (adm_open_cats E upd)) w)
      else if data = ''adm:cat:add''
      then Some (gated E upd ''cats'' (prompt upd (\<lambda>x. x\<lparr>await_cat_add := True\<rparr>) ''adm:cats:0'') w)
      else if startswith data ''adm:cat:rename:''
      then Some (gated E upd ''cats''
                   (with_int (seg_int data 3)
                      (\<lambda>cid. prompt upd (\<lambda>x. x\<lparr>await_cat_rename := Some cid\<rparr>) ''adm:cats:0'')) w)
      else if startswith data ''adm:cat:toggle:''
      then Some (gated E upd ''cats''
                   (with_int (seg_int data 3)
                      (\<lambda>cid w'. adm_open_cat E upd cid (on_db (toggle_category cid) w'))) w)
      else if startswith data ''adm:cat:delete:ok:''
      then Some (gated E upd ''cats''
                   (with_int (seg_int data 4)
                      (\<lambda>cid w'. adm_open_cats E upd 0
                                  (on_db (delete_category cid)
                                     (on_db (delete_memberships_of_category cid) w')))) w)
      else if startswith data ''adm:cat:delete:''
      then Some (gated E upd ''cats''
                   (with_int (seg_int data 3)
                      (\<lambda>cid. replace_menu (effective_chat upd)
                                [[CallbackButton (''adm:cat:delete:ok:'' @ show_int cid)],
                                 [CallbackButton (''adm:cat:'' @ show_int cid)]] ''admin'')) w)
      else if startswith data ''adm:cat:''
      then Some (gated E upd ''cats'' (with_int (seg_int data 2) (adm_open_cat E upd)) w)
      else None)"

definition selected_from_db :: "store \<Rightarrow> int \<Rightarrow> int list" where
  \<comment> \<open>the set \<open>{row["id"] for row in product_categories(pid)}\<close>, kept as a sorted list\<close>
  "selected_from_db d pid = sort (remdups (map c_id (product_categories_of d pid)))"

definition selected_of :: "user_data \<Rightarrow> int list" where
  \<comment> \<open>\<open>context.user_data.get("prod_cats_selected", set())\<close>\<close>
  "selected_of x = (case prod_cats_selected x of None \<Rightarrow> [] | Some sel \<Rightarrow> sel)"

definition load_selected :: "int \<Rightarrow> world \<Rightarrow> world" where
  "load_selected pid w = on_ud (\<lambda>x. x\<lparr>prod_cats_selected := Some (selected_from_db (db w) pid)\<rparr>) w"

text \<open>The loop \<open>for cat_id in sorted(selected): db_exec("INSERT INTO product_categories ...")\<close>.\<close>

fun insert_memberships :: "int \<Rightarrow> int list \<Rightarrow> handler \<Rightarrow> handler" where
  "insert_memberships pid [] k = k"
| "insert_memberships pid (c # cs) k = exec (insert_membership pid c) (insert_memberships pid cs k)"

definition cb_adm_prods :: "env \<Rightarrow> update \<Rightarrow> string \<Rightarrow> world \<Rightarrow> (outcome \<times> world) option" where
  "cb_adm_prods E upd data w =
     (let chat = effective_chat upd
      in if startswith data ''adm:prods:cat:''
         then Some (gated E upd ''prods''
                      (with_int (seg_int data 3)
                         (\<lambda>cat. with_int (seg_int data 4) (\<lambda>page. adm_open_prods E upd cat page))) w)
         else if startswith data ''adm:prods:''
         then Some (gated E upd ''prods'' (with_int (seg_int data 2) (adm_open_prods_list E upd)) w)
         else if startswith data ''adm:prod:add''
         then Some (gated E upd ''prods''
                      (\<lambda>w'. let parts = split CHR '':'' data
                             in if length parts > 3
                                then with_int (py_int (parts ! 3))
                                       (\<lambda>cat. let back_cb = ''adm:prods:cat:'' @ show_int cat @ '':0''
                                               in prompt upd (\<lambda>x. x\<lparr>await_prod_name := True,
                                                                      prod_add_back := Some back_cb\<rparr>) back_cb) w'
                                else prompt upd (\<lambda>x. x\<lparr>await_prod_name := True,
                                                        prod_add_back := Some ''adm:prods:0''\<rparr>) ''adm:prods:0'' w') w)
         else if startswith data ''adm:prod:edit:name:''
         then Some (gated E upd ''prods''
                      (with_int (seg_int data 4)
                         (\<lambda>pid. prompt upd (\<lambda>x. x\<lparr>await_prod_name_edit := Some pid\<rparr>)
                                   (''adm:prod:'' @ show_int pid))) w)
         else if startswith data ''adm:prod:edit:desc:''
         then Some (gated E upd ''prods''
                      (with_int (seg_int data 4)
                         (\<lambda>pid. prompt upd (\<lambda>x. x\<lparr>await_prod_desc_edit := Some pid\<rparr>)
                                   (''adm:prod:'' @ show_int pid))) w)
         else if startswith data ''adm:prod:variants:''
         then Some (gated E upd ''prods'' (with_int (seg_int data 3) (adm_open_prod_variants E upd)) w)
         else if startswith data ''adm:prod:toggle:''
         then Some (gated E upd ''prods''
                      (with_int (seg_int data 3)
                         (\<lambda>pid w'. adm_open_prod E upd pid (on_db (toggle_product pid) w'))) w)
         else if startswith data ''adm:prod:delete:ok:''
         then Some (gated E upd ''prods''
                      (with_int (seg_int data 4)
                         (\<lambda>pid w'. adm_open_prods_list E upd 0 (on_db (delete_product pid) w'))) w)
         else if startswith data ''adm:prod:cats:toggle:''
         then Some (gated E upd ''prods''
                      (with_int (seg_int data 4)
                         (\<lambda>pid. with_int (seg_int data 5)
                            (\<lambda>cat w'.
                               let w1 = (if prod_cats_pid (ud w') \<noteq> Some pid
                                         then load_selected pid (on_ud (\<lambda>x. x\<lparr>prod_cats_pid := Some pid\<rparr>) w')
                                         else w');
                                   selected = selected_of (ud w1);
                                   selected1 = (if cat \<in> set selected then removeAll cat selected
                                                else insort cat selected);
                                   w2 = on_ud (\<lambda>x. x\<lparr>prod_cats_selected := Some selected1\<rparr>) w1
                               in replace_menu chat (kb_adm_prod_categories (db w2) pid) ''admin'' w2))) w)
         else if startswith data ''adm:prod:cats:edit:''
         then Some (gated E upd ''prods''
                      (with_int (seg_int data 4)
                         (\<lambda>pid w'.
                            let w1 = load_selected pid (on_ud (\<lambda>x. x\<lparr>prod_cats_pid := Some pid\<rparr>) w')
                            in replace_menu chat (kb_adm_prod_categories (db w1) pid) ''admin'' w1)) w)
         else if startswith data ''adm:prod:cats:done:''
         then Some (gated E upd ''prods''
                      (with_int (seg_int data 4)
                         (\<lambda>pid w'.
                            let w1 = (if prod_cats_pid (ud w') \<noteq> Some pid then load_selected pid w' else w');
                                selected = selected_of (ud w1);
                                w2 = on_db (delete_memberships_of_product pid) w1
                            in insert_memberships pid selected
                                 (\<lambda>w3. adm_open_prod E upd pid
                                          (on_ud (\<lambda>x. x\<lparr>prod_cats_pid := None, prod_cats_selected := None\<rparr>) w3))
                                 w2)) w)
         else if startswith data ''adm:prod:delete:''
         then Some (gated E upd ''prods''
                      (with_int (seg_int data 3)
                         (\<lambda>pid. replace_menu chat
                                   [[CallbackButton (''adm:prod:delete:ok:'' @ show_int pid)],
                                    [CallbackButton (''adm:prod:'' @ show_int pid)]] ''admin'')) w)
         else if startswith data ''adm:variant:add:''
         then Some (gated E upd ''prods''
                      (with_int (seg_int data 3)
                         (\<lambda>pid. prompt upd (\<lambda>x. x\<lparr>await_variant_name := Some pid\<rparr>)
                                   (''adm:prod:variants:'' @ show_int pid))) w)
         else if startswith data ''adm:variant:edit:name:''
         then Some (gated E upd ''prods''
                      (with_int (seg_int data 4)
                         (\<lambda>pid. with_int (seg_int data 5)
                            (\<lambda>vid. prompt upd (\<lambda>x. x\<lparr>await_variant_name_edit := Some (pid, vid)\<rparr>)
                                      (''adm:variant:'' @ show_int pid @ '':'' @ show_int vid)))) w)
         else if startswith data ''adm:variant:edit:stock:''
         then Some (gated E upd ''prods''
                      (with_int (seg_int data 4)
                         (\<lambda>pid. with_int (seg_int data 5)
                            (\<lambda>vid. prompt upd (\<lambda>x. x\<lparr>await_variant_stock_edit := Some (pid, vid)\<rparr>)
                                      (''adm:variant:'' @ show_int pid @ '':'' @ show_int vid)))) w)
         else if startswith data ''adm:variant:delete:ok:''
         then Some (gated E upd ''prods''
                      (with_int (seg_int data 4)
                         (\<lambda>pid. with_int (seg_int data 5)
                            (\<lambda>vid w'. adm_open_prod_variants E upd pid (on_db (delete_variant vid pid) w')))) w)
         else if startswith data ''adm:variant:delete:''
         then Some (gated E upd ''prods''
                      (with_int (seg_int data 3)
                         (\<lambda>pid. with_int (seg_int data 4)
                            (\<lambda>vid. replace_menu chat
                                      [[CallbackButton (''adm:variant:delete:ok:'' @ show_int pid @ '':'' @ show_int vid)],
                                       [CallbackButton (''adm:variant:'' @ show_int pid @ '':'' @ show_int vid)]]
                                      ''admin''))) w)
         else if startswith data ''adm:variant:''
         then Some (gated E upd ''prods''
                      (with_int (seg_int data 2)
                         (\<lambda>pid. with_int (seg_int data 3) (\<lambda>vid. adm_open_variant E upd pid vid))) w)
         else if startswith data ''adm:prod:''
         then Some (gated E upd ''prods'' (with_int (seg_int data 2) (adm_open_prod E upd)) w)
         else None)"

definition cb_adm_photos :: "env \<Rightarrow> update \<Rightarrow> string \<Rightarrow> world \<Rightarrow> (outcome \<times> world) option" where
  "cb_adm_photos E upd data w =
     (if startswith data ''adm:photo:add:''
      then Some (gated E upd ''photos''
                   (with_int (seg_int data 3)
                      (\<lambda>pid. replace_menu (effective_chat upd)
                                [[CallbackButton (''adm:photo:done:'' @ show_int pid)],
                                 [CallbackButton (''adm:prod:'' @ show_int pid)]] ''admin''
                              \<circ> on_ud (\<lambda>x. x\<lparr>await_addphoto_pid := Some pid\<rparr>))) w)
      else if startswith data ''adm:photo:done:''
      then Some (gated E upd ''photos''
                   (with_int (seg_int data 3)
                      (\<lambda>pid w'. adm_open_prod E upd pid (on_ud (\<lambda>x. x\<lparr>await_addphoto_pid := None\<rparr>) w'))) w)
      else if startswith data ''adm:photo:clear:''
      then Some (gated E upd ''photos''
                   (with_int (seg_int data 3)
                      (\<lambda>pid w'. adm_open_prod E upd pid (on_db (delete_photos_of pid) w'))) w)
      else None)"

definition swap_items :: "nat \<Rightarrow> nat \<Rightarrow> 'a list \<Rightarrow> 'a list" where
  \<comment> \<open>\<open>arr[i], arr[j] = arr[j], arr[i]\<close> for indices in range\<close>
  "swap_items i j xs = xs[i := xs ! j, j := xs ! i]"

definition in_range :: "int \<Rightarrow> 'a list \<Rightarrow> bool" where
  \<comment> \<open>\<open>0 <= i < len(arr)\<close>\<close>
  "in_range i xs = (0 \<le> i \<and> i < int (length xs))"

definition with_links :: "env \<Rightarrow> (link list \<Rightarrow> handler) \<Rightarrow> handler" where
  \<comment> \<open>\<open>arr = load_links()\<close>, then the body\<close>
  "with_links E body w = (case load_links E (db w) of Inl e \<Rightarrow> (Raised e, w) | Inr arr \<Rightarrow> body arr w)"

definition cb_adm_links :: "env \<Rightarrow> update \<Rightarrow> string \<Rightarrow> world \<Rightarrow> (outcome \<times> world) option" where
  "cb_adm_links E upd data w =
     (if data = ''adm:links''
      then Some (gated E upd ''links'' (adm_open_links E upd) w)
      else if data = ''adm:links:add''
      then Some (gated E upd ''links'' (prompt upd (\<lambda>x. x\<lparr>await_link_text := True\<rparr>) ''adm:links'') w)
      else if startswith data ''adm:links:edit:''
      then Some (gated E upd ''links''
                   (with_int (seg_int data 3)
                      (\<lambda>idx. with_links E
                         (\<lambda>arr. if \<not> in_range idx arr then adm_open_links E upd
                                 else replace_menu (effective_chat upd) (kb_link_edit idx) ''admin''))) w)
      else if startswith data ''adm:links:txt:''
      then Some (gated E upd ''links''
                   (with_int (seg_int data 3)
                      (\<lambda>i. prompt upd (\<lambda>x. x\<lparr>await_link_txt_i := Some i\<rparr>)
                               (''adm:links:edit:'' @ show_int i))) w)
      else if startswith data ''adm:links:url:''
      then Some (gated E upd ''links''
                   (with_int (seg_int data 3)
                      (\<lambda>i. prompt upd (\<lambda>x. x\<lparr>await_link_url_i := Some i\<rparr>)
                               (''adm:links:edit:'' @ show_int i))) w)
      else if startswith data ''adm:links:up:''
      then Some (gated E upd ''links''
                   (with_int (seg_int data 3)
                      (\<lambda>i. with_links E
                         (\<lambda>arr w'. adm_open_links E upd
                                      (if 0 < i \<and> i < int (length arr)
                                       then on_db (save_links (swap_items (nat (i - 1)) (nat i) arr)) w'
                                       else w')))) w)
      else if startswith data ''adm:links:dn:''
      then Some (gated E upd ''links''
                   (with_int (seg_int data 3)
                      (\<lambda>i. with_links E
                         (\<lambda>arr w'. adm_open_links E upd
                                      (if 0 \<le> i \<and> i < int (length arr) - 1
                                       then on_db (save_links (swap_items (nat (i + 1)) (nat i) arr)) w'
                                       else w')))) w)
      else if startswith data ''adm:links:toggle:''
      then Some (gated E upd ''links''
                   (with_int (seg_int data 3)
                      (\<lambda>i. with_links E
                         (\<lambda>arr w'. adm_open_links E upd
                                      (if in_range i arr
                                       then on_db (save_links
                                              (arr[nat i := (arr ! nat i)\<lparr>l_active :=
                                                  (if l_active (arr ! nat i) \<noteq> 0 then 0 else 1)\<rparr>])) w'
                                       else w')))) w)
      else if startswith data ''adm:links:del:''
      then Some (gated E upd ''links''
                   (with_int (seg_int data 3)
                      (\<lambda>i. with_links E
                         (\<lambda>arr w'. adm_open_links E upd
                                      (if in_range i arr
                                       then on_db (save_links (take (nat i) arr @ drop (Suc (nat i)) arr)) w'
                                       else w')))) w)
      else None)"

definition cb_adm_settings :: "env \<Rightarrow> update \<Rightarrow> string \<Rightarrow> world \<Rightarrow> (outcome \<times> world) option" where
  \<comment> \<open>the welcome text and the reservation settings\<close>
  "cb_adm_settings E upd data w =
     (if data = ''adm:welcome''
      then Some (gated E upd ''welcome'' (prompt upd (\<lambda>x. x\<lparr>await_welcome := True\<rparr>) ''adm:home'') w)
      else if data = ''adm:reserve''
      then Some (gated E upd ''reserve'' (adm_open_reserve E upd) w)
      else if data = ''adm:reserve:toggle''
      then Some (gated E upd ''reserve''
                   (\<lambda>w'. adm_open_reserve E upd
                            (on_db (\<lambda>d. set_setting ''reserve_enabled'' (if reserve_enabled d then ''0'' else ''1'') d) w')) w)
      else if data = ''adm:reserve:text''
      then Some (gated E upd ''reserve'' (prompt upd (\<lambda>x. x\<lparr>await_reserve_text := True\<rparr>) ''adm:reserve'') w)
      else if data = ''adm:reserve:username''
      then Some (gated E upd ''reserve'' (prompt upd (\<lambda>x. x\<lparr>await_reserve_username := True\<rparr>) ''adm:reserve'') w)
      else if data = ''adm:reserve:tpl''
      then Some (gated E upd ''reserve'' (prompt upd (\<lambda>x. x\<lparr>await_reserve_tpl := True\<rparr>) ''adm:reserve'') w)
      else None)"

definition send_file :: "update \<Rightarrow> handler" where
  \<comment> \<open>\<open>context.bot.send_document\<close>; the files themselves are outside the model\<close>
  "send_file upd w =
     (let (r, t) = send_document (effective_chat upd) (bot w)
      in finish (r, w\<lparr>bot := t\<rparr>))"

definition cb_adm_data :: "env \<Rightarrow> update \<Rightarrow> string \<Rightarrow> world \<Rightarrow> (outcome \<times> world) option" where
  "cb_adm_data E upd data w =
     (if data = ''adm:data''
      then Some (admin_gated E upd (adm_open_data E upd) w)
      else if data = ''adm:data:import''
      then Some (admin_gated E upd (replace_menu (effective_chat upd) (kb_back ''adm:data'') ''admin'') w)
      else if data = ''adm:data:export''
      then Some (admin_gated E upd (send_file upd) w)
      else if data = ''adm:data:backup''
      then Some (admin_gated E upd (send_file upd) w)
      else if data = ''adm:data:downloaddb''
      then Some (admin_gated E upd (send_file upd) w)
      else None)"

definition flip :: "int \<Rightarrow> int" where
  \<comment> \<open>\<open>0 if v else 1\<close>\<close>
  "flip v = (if v \<noteq> 0 then 0 else 1)"

definition toggle_perm :: "string \<Rightarrow> editor_row \<Rightarrow> editor_row" where
  \<comment> \<open>\<open>UPDATE editors SET {col}=? ...\<close> for \<open>col = col_map[perm]\<close>\<close>
  "toggle_perm perm r =
     (if perm = ''cats'' then r\<lparr>perm_cats := flip (perm_cats r)\<rparr>
      else if perm = ''prods'' then r\<lparr>perm_prods := flip (perm_prods r)\<rparr>
      else if perm = ''photos'' then r\<lparr>perm_photos := flip (perm_photos r)\<rparr>
      else if perm = ''links'' then r\<lparr>perm_links := flip (perm_links r)\<rparr>
      else if perm = ''welcome'' then r\<lparr>perm_welcome := flip (perm_welcome r)\<rparr>
      else if perm = ''reserve'' then r\<lparr>perm_reserve := flip (perm_reserve r)\<rparr>
      else r)"

definition update_editor :: "int \<Rightarrow> (editor_row \<Rightarrow> editor_row) \<Rightarrow> store \<Rightarrow> store" where
  "update_editor u f d = d\<lparr>editors := map (\<lambda>r. if e_user_id r = u then f r else r) (editors d)\<rparr>"

definition cb_adm_editors :: "env \<Rightarrow> update \<Rightarrow> string \<Rightarrow> world \<Rightarrow> (outcome \<times> world) option" where
  "cb_adm_editors E upd data w =
     (if data = ''adm:editors''
      then Some (admin_gated E upd (adm_open_editors E upd) w)
      else if data = ''adm:editor:add''
      then Some (admin_gated E upd (prompt upd (\<lambda>x. x\<lparr>await_editor_add := True\<rparr>) ''adm:editors'') w)
      else if startswith data ''adm:editor:edit:''
      then Some (admin_gated E upd (with_int (seg_int data 3) (adm_open_editor E upd)) w)
      else if startswith data ''adm:editor:toggle:''
      then Some (admin_gated E upd
                   (with_int (seg_int data 3)
                      (\<lambda>u w'. adm_open_editor E upd u
                                 (on_db (update_editor u (\<lambda>r. r\<lparr>e_is_active := flip (e_is_active r)\<rparr>)) w'))) w)
      else if startswith data ''adm:editor:perm:''
      then Some (admin_gated E upd
                   (\<lambda>w'. case split CHR '':'' data of
                            [a, b, c, perm, uid_str] \<Rightarrow>
                              with_int (py_int uid_str)
                                (\<lambda>u w''. if col_map perm = None then (Raised KeyError, w'')
                                          else adm_open_editor E upd u (on_db (update_editor u (toggle_perm perm)) w''))
                                w'
                          | _ \<Rightarrow> (Raised ValueError, w')) w)
      else if startswith data ''adm:editor:del:''
      then Some (admin_gated E upd
                   (with_int (seg_int data 3)
                      (\<lambda>u w'. adm_open_editors E upd
                                 (on_db (\<lambda>d. d\<lparr>editors := filter (\<lambda>r. e_user_id r \<noteq> u) (editors d)\<rparr>) w'))) w)
      else None)"

text \<open>
  The router. Its branches are tried in the order of the source; the first that matches
  runs and returns. A token that matches none is ignored.
\<close>

definition first_match :: "(world \<Rightarrow> (outcome \<times> world) option) list \<Rightarrow> handler" where
  "first_match sections w =
     (case List.map_filter (\<lambda>f. f w) sections of
        [] \<Rightarrow> (Done, w)
      | r # rs \<Rightarrow> r)"

definition cb_adm :: "env \<Rightarrow> update \<Rightarrow> string \<Rightarrow> handler" where
  \<comment> \<open>everything below the staff check of \<open>cb\<close>\<close>
  "cb_adm E upd data =
     first_match
       [cb_adm_cats E upd data, cb_adm_prods E upd data, cb_adm_photos E upd data,
        cb_adm_links E upd data, cb_adm_settings E upd data, cb_adm_data E upd data,
        cb_adm_editors E upd data]"

definition cb :: "env \<Rightarrow> update \<Rightarrow> handler" where
  "cb E upd w0 =
     (let w = on_db (touch_user upd) w0
      in case callback_query upd of
           None \<Rightarrow> (Done, w)
         | Some data \<Rightarrow>
             (let (r, t) = answer (bot w);
                  w1 = w\<lparr>bot := t\<rparr>
              in case r of
                   Inl e \<Rightarrow> (Raised e, w1)
                 | Inr u \<Rightarrow>
                     (case cb_shop E upd data w1 of
                        Some res \<Rightarrow> res
                      | None \<Rightarrow>
                          if startswith data ''adm:'' \<and> \<not> require_staff E (db w1) upd then (Done, w1)
                          else cb_adm E upd data w1)))"

section \<open>The text handler \<open>on_text\<close> (admin_bot.py)\<close>

text \<open>
  \<open>on_text\<close> is a sequence of checks, each popping one key of \<open>user_data\<close> and, when
  the popped value is truthy, running the continuation of that key and returning. A
  \<open>continuation\<close> names the check that caught the text, with the value it popped.
\<close>

datatype continuation =
    PhotoDone int
  | Welcome
  | LinkText
  | LinkUrl
  | LinkTxtI int
  | LinkUrlI int
  | CatAdd
  | CatRename int
  | ProdName
  | ProdDesc
  | ProdNameEdit int
  | ProdDescEdit int
  | VariantName int
  | VariantStock int
  | VariantNameEdit int int
  | VariantStockEdit int int
  | ReserveText
  | ReserveUsername
  | ReserveTpl
  | EditorAdd

type_synonym probe = "user_data \<Rightarrow> continuation option \<times> user_data"

definition pop_flag :: "(user_data \<Rightarrow> bool) \<Rightarrow> (user_data \<Rightarrow> user_data) \<Rightarrow> continuation \<Rightarrow> probe" where
  \<comment> \<open>\<open>if context.user_data.pop(key, False):\<close>\<close>
  "pop_flag get clear c x = (if get x then (Some c, clear x) else (None, x))"

definition pop_value :: "(user_data \<Rightarrow> 'a option) \<Rightarrow> (user_data \<Rightarrow> user_data) \<Rightarrow> ('a \<Rightarrow> continuation) \<Rightarrow> probe" where
  \<comment> \<open>\<open>v = context.user_data.pop(key, None)\<close>, then \<open>if v is not None:\<close> (or \<open>if v:\<close> for
      a tuple, which is never falsy)\<close>
  "pop_value get clear mk x = (case get x of None \<Rightarrow> (None, x) | Some v \<Rightarrow> (Some (mk v), clear x))"

definition pop_truthy :: "(user_data \<Rightarrow> int option) \<Rightarrow> (user_data \<Rightarrow> user_data) \<Rightarrow> (int \<Rightarrow> continuation) \<Rightarrow> probe" where
  \<comment> \<open>\<open>v = context.user_data.pop(key, None)\<close>, then \<open>if v:\<close>: the id 0 is popped and
      the checks go on\<close>
  "pop_truthy get clear mk x =
     (case get x of
        None \<Rightarrow> (None, x)
      | Some v \<Rightarrow> if v \<noteq> 0 then (Some (mk v), clear x) else (None, clear x))"

definition is_done_word :: "env \<Rightarrow> string \<Rightarrow> bool" where
  "is_done_word E txt = (lower txt \<in> set [cyrillic E ''done'', cyrillic E ''done!'', ''done''])"

definition photo_done :: "env \<Rightarrow> string \<Rightarrow> probe" where
  \<comment> \<open>\<open>if context.user_data.get("await_addphoto_pid") and text.lower() in (...)\<close>\<close>
  "photo_done E txt x =
     (case await_addphoto_pid x of
        None \<Rightarrow> (None, x)
      | Some pid \<Rightarrow>
          if pid \<noteq> 0 \<and> is_done_word E txt then (Some (PhotoDone pid), x\<lparr>await_addphoto_pid := None\<rparr>)
          else (None, x))"

definition probes :: "env \<Rightarrow> string \<Rightarrow> probe list" where
  \<comment> \<open>the checks of \<open>on_text\<close>, in the order of the source\<close>
  "probes E txt =
     [photo_done E txt,
      pop_flag await_welcome (\<lambda>x. x\<lparr>await_welcome := False\<rparr>) Welcome,
      pop_flag await_link_text (\<lambda>x. x\<lparr>await_link_text := False\<rparr>) LinkText,
      pop_flag await_link_url (\<lambda>x. x\<lparr>await_link_url := False\<rparr>) LinkUrl,
      pop_value await_link_txt_i (\<lambda>x. x\<lparr>await_link_txt_i := None\<rparr>) LinkTxtI,
      pop_value await_link_url_i (\<lambda>x. x\<lparr>await_link_url_i := None\<rparr>) LinkUrlI,
      pop_flag await_cat_add (\<lambda>x. x\<lparr>await_cat_add := False\<rparr>) CatAdd,
      pop_truthy await_cat_rename (\<lambda>x. x\<lparr>await_cat_rename := None\<rparr>) CatRename,
      pop_flag await_prod_name (\<lambda>x. x\<lparr>await_prod_name := False\<rparr>) ProdName,
      pop_flag await_prod_desc (\<lambda>x. x\<lparr>await_prod_desc := False\<rparr>) ProdDesc,
      pop_truthy await_prod_name_edit (\<lambda>x. x\<lparr>await_prod_name_edit := None\<rparr>) ProdNameEdit,
      pop_truthy await_prod_desc_edit (\<lambda>x. x\<lparr>await_prod_desc_edit := None\<rparr>) ProdDescEdit,
      pop_value await_variant_name (\<lambda>x. x\<lparr>await_variant_name := None\<rparr>) VariantName,
      pop_value await_variant_stock (\<lambda>x. x\<lparr>await_variant_stock := None\<rparr>) VariantStock,
      pop_value await_variant_name_edit (\<lambda>x. x\<lparr>await_variant_name_edit := None\<rparr>)
        (\<lambda>c. VariantNameEdit (fst c) (snd c)),
      pop_value await_variant_stock_edit (\<lambda>x. x\<lparr>await_variant_stock_edit := None\<rparr>)
        (\<lambda>c. VariantStockEdit (fst c) (snd c)),
      pop_flag await_reserve_text (\<lambda>x. x\<lparr>await_reserve_text := False\<rparr>) ReserveText,
      pop_flag await_reserve_username (\<lambda>x. x\<lparr>await_reserve_username := False\<rparr>) ReserveUsername,
      pop_flag await_reserve_tpl (\<lambda>x. x\<lparr>await_reserve_tpl := False\<rparr>) ReserveTpl,
      pop_flag await_editor_add (\<lambda>x. x\<lparr>await_editor_add := False\<rparr>) EditorAdd]"

fun first_probe :: "probe list \<Rightarrow> probe" where
  "first_probe [] x = (None, x)"
| "first_probe (p # ps) x =
     (case p x of
        (Some c, x1) \<Rightarrow> (Some c, x1)
      | (None, x1) \<Rightarrow> first_probe ps x1)"

definition take_continuation :: "env \<Rightarrow> string \<Rightarrow> probe" where
  "take_continuation E txt = first_probe (probes E txt)"

definition is_http_url :: "string \<Rightarrow> bool" where
  \<comment> \<open>\<open>re.match(r"^https?://", text)\<close>\<close>
  "is_http_url txt = (startswith txt ''http://'' \<or> startswith txt ''https://'')"

definition or_default :: "string \<Rightarrow> string \<Rightarrow> string" where
  \<comment> \<open>\<open>text or default\<close>\<close>
  "or_default txt dflt = (if txt = [] then dflt else txt)"

definition pop_or :: "string option \<Rightarrow> string \<Rightarrow> string" where
  \<comment> \<open>the value of \<open>context.user_data.pop(key, default)\<close>\<close>
  "pop_or v dflt = (case v of None \<Rightarrow> dflt | Some s \<Rightarrow> s)"

definition allowed :: "env \<Rightarrow> int \<Rightarrow> string \<Rightarrow> handler \<Rightarrow> handler" where
  \<comment> \<open>\<open>if not has_perm(uid, perm): return\<close>, then the body\<close>
  "allowed E u perm body w = (if has_perm E (db w) u perm then body w else (Done, w))"

definition is_name_char :: "char \<Rightarrow> bool" where
  \<comment> \<open>\<open>[A-Za-z_]\<close>\<close>
  "is_name_char c =
     (let n = (of_char c :: nat) in (65 \<le> n \<and> n \<le> 90) \<or> (97 \<le> n \<and> n \<le> 122) \<or> n = 95)"

definition sql_lower :: "string \<Rightarrow> string" where
  \<comment> \<open>\<open>lower()\<close> of SQLite: ASCII letters only\<close>
  "sql_lower s = map (\<lambda>c. let n = (of_char c :: nat) in if 65 \<le> n \<and> n \<le> 90 then char_of (n + 32) else c) s"

definition latest_user :: "user_row list \<Rightarrow> user_row option" where
  \<comment> \<open>\<open>ORDER BY updated_at DESC LIMIT 1\<close>\<close>
  "latest_user rows =
     (case rows of
        [] \<Rightarrow> None
      | r # rs \<Rightarrow> Some (fold (\<lambda>a b. if u_updated_at b < u_updated_at a then a else b) rs r))"

fun upsert_editor :: "int \<Rightarrow> string \<Rightarrow> editor_row list \<Rightarrow> editor_row list" where
  \<comment> \<open>\<open>INSERT INTO editors(user_id,is_active,username) VALUES(?,?,?) ON CONFLICT(user_id)
      DO UPDATE SET is_active=1, username=excluded.username\<close>\<close>
  "upsert_editor u nm [] =
     [\<lparr>e_user_id = u, e_username = nm, e_is_active = 1, perm_cats = 1, perm_prods = 1,
       perm_photos = 1, perm_links = 1, perm_welcome = 1, perm_reserve = 1\<rparr>]"
| "upsert_editor u nm (r # rs) =
     (if e_user_id r = u then r\<lparr>e_is_active := 1, e_username := nm\<rparr> # rs
      else r # upsert_editor u nm rs)"

definition editor_add :: "update \<Rightarrow> string \<Rightarrow> handler" where
  \<comment> \<open>the \<open>try\<close> block of the continuation \<open>await_editor_add\<close>\<close>
  "editor_add upd txt w =
     (let chat = effective_chat upd;
          kb = kb_back ''adm:editors'';
          add = (\<lambda>eid nm w'. replace_menu chat kb ''admin''
                                (on_db (\<lambda>d. d\<lparr>editors := upsert_editor eid nm (editors d)\<rparr>) w'))
      in if startswith (lstrip txt) ''@'' \<or> (\<exists>c \<in> set txt. is_name_char c)
         then (let uname = lower (dropWhile (\<lambda>c. c = CHR ''@'') (strip txt))
               in case latest_user (filter (\<lambda>r. sql_lower (u_username r) = uname) (users (db w))) of
                    None \<Rightarrow> replace_menu chat kb ''admin'' w
                  | Some r \<Rightarrow> add (u_user_id r) (or_default (u_username r) uname) w)
         else (case py_int (filter is_digit txt) of
                 Inl e \<Rightarrow> (Raised e, w)
               | Inr eid \<Rightarrow>
                   add eid (case find (\<lambda>r. u_user_id r = eid) (users (db w)) of
                              None \<Rightarrow> []
                            | Some r \<Rightarrow> u_username r) w))"

definition run_continuation :: "env \<Rightarrow> update \<Rightarrow> int \<Rightarrow> string \<Rightarrow> continuation \<Rightarrow> handler" where
  "run_continuation E upd u txt c =
     (let chat = effective_chat upd
      in case c of
           PhotoDone pid \<Rightarrow> adm_open_prod E upd pid
         | Welcome \<Rightarrow>
             allowed E u ''welcome''
               (\<lambda>w. replace_menu chat (kb_back ''adm:home'') ''admin''
                       (on_db (set_setting ''welcome_html'' (or_default txt (cyrillic E ''Catalog.''))) w))
         | LinkText \<Rightarrow>
             allowed E u ''links''
               (prompt upd (\<lambda>x. x\<lparr>link_text := Some txt, await_link_url := True\<rparr>) ''adm:links'')
         | LinkUrl \<Rightarrow>
             allowed E u ''links''
               (if \<not> is_http_url txt then prompt upd (\<lambda>x. x\<lparr>await_link_url := True\<rparr>) ''adm:links''
                else with_links E
                       (\<lambda>arr w. adm_open_links E upd
                                   (on_db (save_links
                                             (arr @ [\<lparr>l_text = pop_or (link_text (ud w)) (cyrillic E ''Link''),
                                                      l_url = txt, l_active = 1\<rparr>]))
                                      (on_ud (\<lambda>x. x\<lparr>link_text := None\<rparr>) w))))
         | LinkTxtI i \<Rightarrow>
             allowed E u ''links''
               (with_links E
                  (\<lambda>arr w. adm_open_links E upd
                              (if in_range i arr
                               then on_db (save_links (arr[nat i := (arr ! nat i)\<lparr>l_text := txt\<rparr>])) w
                               else w)))
         | LinkUrlI i \<Rightarrow>
             allowed E u ''links''
               (if \<not> is_http_url txt
                then prompt upd (\<lambda>x. x\<lparr>await_link_url_i := Some i\<rparr>) (''adm:links:edit:'' @ show_int i)
                else with_links E
                       (\<lambda>arr w. adm_open_links E upd
                                   (if in_range i arr
                                    then on_db (save_links (arr[nat i := (arr ! nat i)\<lparr>l_url := txt\<rparr>])) w
                                    else w)))
         | CatAdd \<Rightarrow>
             allowed E u ''cats'' (\<lambda>w. adm_open_cats E upd 0 (on_db (insert_category txt) w))
         | CatRename cid \<Rightarrow>
             allowed E u ''cats'' (\<lambda>w. adm_open_cat E upd cid (on_db (rename_category cid txt) w))
         | ProdName \<Rightarrow>
             allowed E u ''prods''
               (\<lambda>w. prompt upd (\<lambda>x. x\<lparr>new_prod_name := Some txt, await_prod_desc := True\<rparr>)
                       (pop_or (prod_add_back (ud w)) ''adm:prods:0'') w)
         | ProdDesc \<Rightarrow>
             allowed E u ''prods''
               (\<lambda>w. let nm = pop_or (new_prod_name (ud w)) (cyrillic E ''Product'');
                         w1 = on_ud (\<lambda>x. x\<lparr>prod_add_back := None, new_prod_name := None\<rparr>) w;
                         (pid, d) = insert_product nm txt (clock upd) (db w1)
                     in adm_open_prod E upd pid (w1\<lparr>db := d\<rparr>))
         | ProdNameEdit pid \<Rightarrow>
             allowed E u ''prods'' (\<lambda>w. adm_open_prod E upd pid (on_db (rename_product pid txt) w))
         | ProdDescEdit pid \<Rightarrow>
             allowed E u ''prods'' (\<lambda>w. adm_open_prod E upd pid (on_db (describe_product pid txt) w))
         | VariantName pid \<Rightarrow>
             allowed E u ''prods''
               (prompt upd (\<lambda>x. x\<lparr>new_variant_name := Some txt, await_variant_stock := Some pid\<rparr>)
                  (''adm:prod:variants:'' @ show_int pid))
         | VariantStock pid \<Rightarrow>
             allowed E u ''prods''
               (case py_int txt of
                  Inl e \<Rightarrow> prompt upd (\<lambda>x. x\<lparr>await_variant_stock := Some pid\<rparr>)
                             (''adm:prod:variants:'' @ show_int pid)
                | Inr st \<Rightarrow>
                    (\<lambda>w. exec (insert_variant pid (pop_or (new_variant_name (ud w)) (cyrillic E ''Variant'')) st)
                            (adm_open_prod_variants E upd pid)
                            (on_ud (\<lambda>x. x\<lparr>new_variant_name := None\<rparr>) w)))
         | VariantNameEdit pid vid \<Rightarrow>
             allowed E u ''prods''
               (\<lambda>w. adm_open_variant E upd pid vid
                       (on_db (update_variant vid pid (\<lambda>v. v\<lparr>v_name := txt\<rparr>)) w))
         | VariantStockEdit pid vid \<Rightarrow>
             allowed E u ''prods''
               (case py_int txt of
                  Inl e \<Rightarrow> prompt upd (\<lambda>x. x\<lparr>await_variant_stock_edit := Some (pid, vid)\<rparr>)
                             (''adm:variant:'' @ show_int pid @ '':'' @ show_int vid)
                | Inr st \<Rightarrow>
                    (\<lambda>w. adm_open_variant E upd pid vid
                            (on_db (update_variant vid pid (\<lambda>v. v\<lparr>v_stock := st\<rparr>)) w)))
         | ReserveText \<Rightarrow>
             allowed E u ''reserve''
               (\<lambda>w. adm_open_reserve E upd
                       (on_db (set_setting ''reserve_text'' (or_default txt (cyrillic E ''Reserve''))) w))
         | ReserveUsername \<Rightarrow>
             allowed E u ''reserve''
               (\<lambda>w. adm_open_reserve E upd (on_db (set_setting ''reserve_tg_username'' (strip txt)) w))
         | ReserveTpl \<Rightarrow>
             allowed E u ''reserve''
               (\<lambda>w. adm_open_reserve E upd (on_db (set_setting ''reserve_msg_tpl'' txt) w))
         | EditorAdd \<Rightarrow>
             (\<lambda>w. if \<not> is_admin E u then (Done, w)
                   else (case editor_add upd txt w of
                           (Raised e, w1) \<Rightarrow> replace_menu chat (kb_back ''adm:editors'') ''admin'' w1
                         | r \<Rightarrow> r)))"

definition auto_delete :: "update \<Rightarrow> world \<Rightarrow> world" where
  \<comment> \<open>the user's own message is deleted when \<open>auto_delete_user\<close> is \<open>"1"\<close>; a failure
      is swallowed\<close>
  "auto_delete upd w =
     (case text_message upd of
        None \<Rightarrow> w
      | Some m \<Rightarrow>
          if setting_or (db w) ''auto_delete_user'' ''0'' = ''1''
          then w\<lparr>bot := snd (delete_message (effective_chat upd) (fst m) (bot w))\<rparr>
          else w)"

definition on_text :: "env \<Rightarrow> update \<Rightarrow> handler" where
  "on_text E upd w0 =
     (let w = auto_delete upd (on_db (touch_user upd) w0)
      in if \<not> require_staff E (db w) upd then (Done, w)
         else (case (user_id_of upd, text_message upd) of
                 (Inl e, m) \<Rightarrow> (Raised e, w)
               | (Inr u, None) \<Rightarrow> (Raised AttributeError, w)
               | (Inr u, Some m) \<Rightarrow>
                   (let txt = strip (snd m);
                        (c, x) = take_continuation E txt (ud w);
                        w1 = w\<lparr>ud := x\<rparr>
                    in case c of
                         None \<Rightarrow> (Done, w1)
                       | Some k \<Rightarrow> run_continuation E upd u txt k w1)))"

section \<open>Export and import (admin_bot.py)\<close>

text \<open>
  The document of \<open>export_json\<close> and \<open>import_json\<close>: five lists of flat records. A
  field of a record is missing, \<open>null\<close>, or a value of the column's type (a document
  whose values have other types is outside the model).
\<close>

datatype 'a field = Missing | Null | Val 'a

record cat_doc =
  cd_id :: "int field"
  cd_name :: "string field"
  cd_is_active :: "int field"

record prod_doc =
  pd_id :: "int field"
  pd_category_id :: "int field"
  pd_name :: "string field"
  pd_description :: "string field"
  pd_price :: "int field"
  pd_stock :: "int field"
  pd_is_active :: "int field"
  pd_created_at :: "string field"

record rel_doc =
  rd_product_id :: "int field"
  rd_category_id :: "int field"

record variant_doc =
  vd_id :: "int field"
  vd_product_id :: "int field"
  vd_name :: "string field"
  vd_stock :: "int field"

record photo_doc =
  phd_product_id :: "int field"
  phd_file_id :: "string field"

record document =
  doc_categories :: "cat_doc list"
  doc_products :: "prod_doc list"
  doc_photos :: "photo_doc list"
  doc_product_categories :: "rel_doc list"
  doc_product_variants :: "variant_doc list"

definition opt_field :: "'a option \<Rightarrow> 'a field" where
  \<comment> \<open>a column of \<open>dict(row)\<close>: NULL is \<open>None\<close>\<close>
  "opt_field v = (case v of None \<Rightarrow> Null | Some x \<Rightarrow> Val x)"






definition bind :: "error + 'a \<Rightarrow> ('a \<Rightarrow> error + 'b) \<Rightarrow> error + 'b" where
  "bind r f = (case r of Inl e \<Rightarrow> Inl e | Inr x \<Rightarrow> f x)"


definition export_json :: "store \<Rightarrow> document" where
  "export_json d =
     \<lparr>doc_categories =
        map (\<lambda>r. \<lparr>cd_id = Val (c_id r), cd_name = Val (c_name r), cd_is_active = Val (c_is_active r)\<rparr>)
            (all_categories d),
      doc_products =
        map (\<lambda>r. \<lparr>pd_id = Val (p_id r), pd_category_id = opt_field (p_category_id r),
                   pd_name = Val (p_name r), pd_description = opt_field (p_description r),
                   pd_price = Val (p_price r), pd_stock = Val (p_stock r),
                   pd_is_active = Val (p_is_active r), pd_created_at = Val (p_created_at r)\<rparr>)
            (all_products d),
      doc_photos =
        map (\<lambda>r. \<lparr>phd_product_id = Val (ph_product_id r), phd_file_id = Val (ph_file_id r)\<rparr>)
            (sort_key ph_id (photos d)),
      doc_product_categories =
        map (\<lambda>r. \<lparr>rd_product_id = Val (fst r), rd_category_id = Val (snd r)\<rparr>)
            (sort_key fst (product_categories d)),
      doc_product_variants =
        map (\<lambda>r. \<lparr>vd_id = Val (v_id r), vd_product_id = Val (v_product_id r),
                   vd_name = Val (v_name r), vd_stock = Val (v_stock r)\<rparr>)
            (sort_key v_product_id (sort_key v_id (product_variants d)))\<rparr>"













section \<open>Sample states\<close>

definition empty_store :: store where
  "empty_store =
     \<lparr>categories = [], products = [], product_categories = [], photos = [],
      product_variants = [], users = [], editors = [], settings = [],
      links_json = Document (JArr []), messages = [],
      seq_categories = 0, seq_products = 0, seq_photos = 0, seq_variants = 0\<rparr>"

definition quiet_bot :: transport where
  \<comment> \<open>a transport on which every call succeeds\<close>
  "quiet_bot = \<lparr>visible = [], next_message_id = 100, outcomes = [], calls = []\<rparr>"

definition shop_world :: world where
  \<comment> \<open>chat 1 shows two messages in scope \<open>shop\<close> and one in scope \<open>home\<close>; the first
      delete fails\<close>
  "shop_world =
     \<lparr>db = empty_store\<lparr>messages :=
             [\<lparr>chat_id = 1, message_id = 10, scope = ''shop''\<rparr>,
              \<lparr>chat_id = 1, message_id = 11, scope = ''shop''\<rparr>,
              \<lparr>chat_id = 1, message_id = 12, scope = ''home''\<rparr>]\<rparr>,
      bot = quiet_bot\<lparr>visible := [(1, 10), (1, 11), (1, 12)], outcomes := [False]\<rparr>,
      ud = empty_user_data\<rparr>"

definition reuse_world :: world where
  \<comment> \<open>the store records message 100 for scope \<open>shop\<close>, and 100 is the id the transport
      gives the next message\<close>
  "reuse_world =
     \<lparr>db = empty_store\<lparr>messages := [\<lparr>chat_id = 1, message_id = 100, scope = ''shop''\<rparr>]\<rparr>,
      bot = quiet_bot,
      ud = empty_user_data\<rparr>"

definition same_but_messages :: "store \<Rightarrow> store \<Rightarrow> bool" where
  \<comment> \<open>two stores that differ at most in the table \<open>messages\<close>\<close>
  "same_but_messages d d' = (d'\<lparr>messages := messages d\<rparr> = d)"

definition one :: link where "one = \<lparr>l_text = ''one'', l_url = ''https://one.example'', l_active = 1\<rparr>"
definition two :: link where "two = \<lparr>l_text = ''two'', l_url = ''https://two.example'', l_active = 0\<rparr>"
definition three :: link where "three = \<lparr>l_text = ''three'', l_url = ''https://three.example'', l_active = 1\<rparr>"

definition owner_env :: env where
  \<comment> \<open>an environment whose one owner is the user 1\<close>
  "owner_env = \<lparr>admin_ids = [1], container_repr = (\<lambda>j. ''[]''), reserve_link = (\<lambda>u t i n. []), cyrillic = (\<lambda>s. s)\<rparr>"

definition press :: "int \<Rightarrow> string \<Rightarrow> update" where
  \<comment> \<open>the user \<open>u\<close> presses, in chat 1, the button with callback data \<open>data\<close>\<close>
  "press u data = \<lparr>effective_user = Some \<lparr>tg_id = u, tg_username = None, tg_first_name = None, tg_last_name = None\<rparr>,
     effective_chat = 1, text_message = None, callback_query = Some data, photo = None, clock = ''now''\<rparr>"

definition links_world :: world where
  \<comment> \<open>the stored link list is \<open>[one, two, three]\<close>\<close>
  "links_world = \<lparr>db = empty_store\<lparr>links_json := Document (JArr (map link_json [one, two, three]))\<rparr>,
     bot = quiet_bot, ud = empty_user_data\<rparr>"

definition bad_links :: json_text where
  \<comment> \<open>the text \<open>[{"text": "a", "url": "b", "active": "x"}]\<close>\<close>
  "bad_links = Document (JArr [JObj [(''text'', JStr ''a''), (''url'', JStr ''b''), (''active'', JStr ''x'')]])"









section \<open>Properties of the Python strings\<close>

lemma strip_idem: "strip (strip s) = strip s"
proof -
  let ?u = "dropWhile is_space s"
  let ?v = "dropWhile is_space (rev ?u)"
  have keep: "dropWhile is_space (rev ?v) = rev ?v"
  proof (cases "?v = []")
    case True
    show ?thesis unfolding True by simp
  next
    case False
    have "rev ?u = takeWhile is_space (rev ?u) @ ?v" by simp
    then have "rev (rev ?u) = rev (takeWhile is_space (rev ?u) @ ?v)" by (rule arg_cong)
    then have eq: "?u = rev ?v @ rev (takeWhile is_space (rev ?u))" by (simp only: rev_append rev_rev_ident)
    from False have nz: "rev ?v \<noteq> []" by (simp only: rev_is_Nil_conv not_False_eq_True)
    have hd: "hd ?u = hd (rev ?v)" by (subst eq) (simp only: hd_append2 [OF nz])
    from eq nz have "?u \<noteq> []" by (metis append_is_Nil_conv)
    then have "\<not> is_space (hd ?u)" by (rule hd_dropWhile)
    with hd show ?thesis by (simp only: dropWhile_eq_self_iff) simp
  qed
  have "strip (strip s) = rev (dropWhile is_space (rev (dropWhile is_space (rev ?v))))"
    by (simp only: strip_def rev_rev_ident)
  also have "\<dots> = rev (dropWhile is_space ?v)" by (simp only: keep rev_rev_ident)
  also have "\<dots> = rev ?v" by (simp only: dropWhile_idem)
  finally show ?thesis by (simp only: strip_def)
qed

lemma digit_char_props:
  assumes "n < 10"
  shows "is_digit (digit_char n) \<and> digit_val (digit_char n) = n \<and> \<not> is_space (digit_char n)
         \<and> digit_char n \<noteq> CHR '':'' \<and> digit_char n \<noteq> CHR ''-'' \<and> digit_char n \<noteq> CHR ''+''
         \<and> digit_char n \<noteq> CHR ''_''"
proof -
  let ?P = "\<lambda>k. is_digit (digit_char k) \<and> digit_val (digit_char k) = k
          \<and> \<not> is_space (digit_char k) \<and> digit_char k \<noteq> CHR '':'' \<and> digit_char k \<noteq> CHR ''-''
          \<and> digit_char k \<noteq> CHR ''+'' \<and> digit_char k \<noteq> CHR ''_''"
  have upto: "[0 ..< 10] = [0, 1, 2, 3, 4, 5, 6, 7, 8, 9 :: nat]"
    by code_simp
  have "list_all ?P [0, 1, 2, 3, 4, 5, 6, 7, 8, 9]"
    by (simp add: digit_char_def is_digit_def digit_val_def is_space_def)
  then have "list_all ?P [0 ..< 10]" by (simp only: upto)
  with assms show ?thesis by (simp add: list_all_iff)
qed

lemma plain_digits_show_nat: "plain_digits (show_nat n) \<and> show_nat n \<noteq> []"
proof (induction n rule: show_nat.induct)
  case (1 n)
  show ?case
  proof (cases "n < 10")
    case True
    then have "show_nat n = [digit_char n]" by (subst show_nat.simps) simp
    with True digit_char_props [of n] show ?thesis by (simp add: plain_digits_def)
  next
    case False
    then have eq: "show_nat n = show_nat (n div 10) @ [digit_char (n mod 10)]"
      by (subst show_nat.simps) simp
    have "n mod 10 < 10" by simp
    from digit_char_props [OF this] 1 [OF False] show ?thesis
      by (simp add: eq plain_digits_def)
  qed
qed

lemma parse_digits_append:
  "is_digit c \<Longrightarrow> parse_digits d acc s = Some v \<Longrightarrow> parse_digits d acc (s @ [c]) = Some (10 * v + digit_val c)"
proof (induction s arbitrary: d acc)
  case Nil
  then show ?case by (simp split: if_splits)
next
  case (Cons a s)
  show ?case
  proof (cases "is_digit a")
    case True
    with Cons.prems(2) have "parse_digits True (10 * acc + digit_val a) s = Some v" by simp
    from Cons.IH [OF Cons.prems(1) this] True show ?thesis by simp
  next
    case False
    with Cons.prems(2) have u: "a = CHR ''_'' \<and> d" and "parse_digits False acc s = Some v"
      by (simp_all split: if_splits)
    from Cons.IH [OF Cons.prems(1) this(2)] False u show ?thesis by simp
  qed
qed

lemma parse_digits_show_nat: "parse_digits False 0 (show_nat n) = Some n"
proof (induction n rule: show_nat.induct)
  case (1 n)
  show ?case
  proof (cases "n < 10")
    case True
    then have "show_nat n = [digit_char n]" by (subst show_nat.simps) simp
    with digit_char_props [OF True] show ?thesis by simp
  next
    case False
    then have eq: "show_nat n = show_nat (n div 10) @ [digit_char (n mod 10)]"
      by (subst show_nat.simps) simp
    have m: "n mod 10 < 10" by simp
    from digit_char_props [OF m] have dg: "is_digit (digit_char (n mod 10))"
      and dv: "digit_val (digit_char (n mod 10)) = n mod 10" by simp_all
    from parse_digits_append [OF dg 1 [OF False]] dv show ?thesis by (simp add: eq)
  qed
qed

lemma strip_no_space:
  assumes "\<forall>c \<in> set s. \<not> is_space c"
  shows "strip s = s"
proof -
  from assms have a: "dropWhile is_space s = s" by (cases s) simp_all
  from assms have "\<forall>c \<in> set (rev s). \<not> is_space c" by simp
  then have "dropWhile is_space (rev s) = rev s" by (cases "rev s") simp_all
  with a show ?thesis by (simp add: strip_def)
qed

lemma py_int_show_int: "py_int (show_int n) = Inr n"
proof (cases "n < 0")
  case True
  from plain_digits_show_nat [of "nat (- n)"]
  have ns: "\<forall>c \<in> set (CHR ''-'' # show_nat (nat (- n))). \<not> is_space c"
    by (simp add: plain_digits_def is_space_def)
  have "strip (show_int n) = CHR ''-'' # show_nat (nat (- n))"
    using True strip_no_space [OF ns] by (simp add: show_int_def)
  with True show ?thesis by (simp add: py_int_def parse_digits_show_nat)
next
  case False
  from plain_digits_show_nat [of "nat n"]
  have pd: "plain_digits (show_nat (nat n))" and ne: "show_nat (nat n) \<noteq> []" by simp_all
  from pd have ns: "\<forall>c \<in> set (show_nat (nat n)). \<not> is_space c" by (simp add: plain_digits_def)
  have st: "strip (show_int n) = show_nat (nat n)"
    using False strip_no_space [OF ns] by (simp add: show_int_def)
  from ne obtain c cs where sn: "show_nat (nat n) = c # cs" by (cases "show_nat (nat n)") simp_all
  from pd sn have c: "c \<noteq> CHR ''-''" "c \<noteq> CHR ''+''" by (simp_all add: plain_digits_def)
  have "parse_digits False 0 (c # cs) = Some (nat n)" using parse_digits_show_nat [of "nat n"] sn by simp
  then have "(case c # cs of [] \<Rightarrow> None
        | c' # cs' \<Rightarrow> if c' = CHR ''-'' then map_option (\<lambda>n. - int n) (parse_digits False 0 cs')
                     else if c' = CHR ''+'' then map_option int (parse_digits False 0 cs')
                     else map_option int (parse_digits False 0 (c # cs))) = Some (int (nat n))"
    using c by (simp del: parse_digits.simps)
  with False show ?thesis by (simp add: py_int_def st sn Let_def del: parse_digits.simps)
qed

lemma split_no_sep: "sep \<notin> set s \<Longrightarrow> split sep s = [s]"
  by (induction s) auto

lemma no_colon_show_int: "CHR '':'' \<notin> set (show_int n)"
  using plain_digits_show_nat [of "nat n"] plain_digits_show_nat [of "nat (- n)"]
  by (auto simp: show_int_def plain_digits_def)

lemma seg_item_show_int:
  "py_int (hd (split CHR '':'' (show_int n))) = Inr n"
  by (simp add: split_no_sep no_colon_show_int py_int_show_int)

section \<open>Properties of the screen manager\<close>

lemma next_message_id_delete_message [simp]:
  "next_message_id (snd (delete_message chat mid t)) = next_message_id t"
  by (simp add: delete_message_def next_outcome_def Let_def split: list.splits)

lemma next_message_id_delete_each [simp]:
  "next_message_id (delete_each chat mids t) = next_message_id t"
  by (induction mids arbitrary: t) simp_all

lemma recorded_delete_scope [simp]: "recorded (db (delete_scope chat sc w)) chat sc = []"
  by (simp add: recorded_def delete_scope_def on_db_def Let_def filter_empty_conv)

lemma delete_scope_twice: "delete_scope chat sc (delete_scope chat sc w) = delete_scope chat sc w"
proof -
  have "delete_scope chat sc (delete_scope chat sc w)
        = (delete_scope chat sc w)\<lparr>bot := delete_each chat [] (bot (delete_scope chat sc w))\<rparr>"
    unfolding delete_scope_def [of chat sc "delete_scope chat sc w"]
    by (simp add: on_db_def Let_def) (simp add: delete_scope_def on_db_def Let_def)
  then show ?thesis by simp
qed

text \<open>
  C8. \<open>delete_scope\<close> (the spec's \<open>clear\<close>) is idempotent: a second call in a row
  leaves the state of the first call as it is, no message id is recorded for the scope,
  the second call makes no transport call (no deletion), and, as \<open>delete_scope\<close>
  swallows every transport failure, it raises nothing.
\<close>

theorem delete_scope_idempotent:
  "delete_scope chat sc (delete_scope chat sc w) = delete_scope chat sc w
   \<and> recorded (db (delete_scope chat sc w)) chat sc = []
   \<and> calls (bot (delete_scope chat sc (delete_scope chat sc w))) = calls (bot (delete_scope chat sc w))"
  by (simp add: delete_scope_twice)

theorem delete_scope_idempotent_witness:
  "delete_scope 1 ''shop'' (delete_scope 1 ''shop'' shop_world) = delete_scope 1 ''shop'' shop_world
   \<and> recorded (db shop_world) 1 ''shop'' = [10, 11]
   \<and> recorded (db (delete_scope 1 ''shop'' shop_world)) 1 ''shop'' = []
   \<and> calls (bot (delete_scope 1 ''shop'' (delete_scope 1 ''shop'' shop_world)))
       = [DeleteMessage 1 10, DeleteMessage 1 11]"
  using delete_scope_idempotent [of 1 "''shop''" shop_world]
  by (simp add: shop_world_def empty_store_def quiet_bot_def recorded_def delete_scope_def
        on_db_def delete_message_def next_outcome_def Let_def)

text \<open>
  C5, as stated, fails where the claim says that no id recorded before the call remains
  recorded: \<open>replace_menu\<close> records whatever id the transport returns, and nothing in
  the program keeps the recorded ids below the ids the transport has yet to give out
  (a restored store file brings its own rows of \<open>messages\<close>). In \<open>reuse_world\<close> the
  call succeeds and the id 100, recorded before, is recorded after.
\<close>

theorem replace_menu_reused_id_counterexample:
  "fst (replace_menu_m 1 [] ''shop'' reuse_world) = Inr 100
   \<and> recorded (db reuse_world) 1 ''shop'' = [100]
   \<and> recorded (db (snd (replace_menu_m 1 [] ''shop'' reuse_world))) 1 ''shop'' = [100]"
  by (simp add: replace_menu_m_def send_and_remember_def send_message_def send_def
        reuse_world_def empty_store_def quiet_bot_def recorded_def delete_scope_def remember_def
        on_db_def delete_message_def next_outcome_def Let_def)

lemma replace_menu_failed_send:
  assumes "replace_menu_m chat kb sc w = (Inl e, w')"
  shows "recorded (db w') chat sc = [] \<and> visible (bot w') = visible (bot (delete_scope chat sc w))"
proof -
  let ?w1 = "delete_scope chat sc w"
  obtain r t where st: "send_message chat kb (bot ?w1) = (r, t)"
    by (cases "send_message chat kb (bot ?w1)")
  from assms st have r: "r = Inl e" and w': "w' = ?w1\<lparr>bot := t\<rparr>"
    by (auto simp: replace_menu_m_def send_and_remember_def Let_def split: sum.splits)
  from st r have "visible t = visible (bot ?w1)"
    by (auto simp: send_message_def send_def next_outcome_def Let_def split: list.splits if_splits)
  moreover have "recorded (db w') chat sc = recorded (db ?w1) chat sc" by (simp add: w')
  ultimately show ?thesis by (simp add: w')
qed

text \<open>
  C5, amended. When \<open>replace_menu\<close> completes (its send succeeds and returns the
  message \<open>mid\<close>), whatever failed during the cleanup:
  \<^item> the ids recorded for the chat and scope are exactly \<open>[mid]\<close>;
  \<^item> \<open>mid\<close> is the message this call sent: the one message the transport added to the
    chat, by the one \<open>SendMessage\<close> call made after the cleanup, under the id the
    transport had next;
  \<^item> every row recorded for the scope before the call is deleted and the one row of the
    new message is added, the rows of other chats and scopes staying as they were;
  \<^item> no id recorded for the scope before the call remains recorded, except the id of the
    new message itself when the transport returns an id that was recorded before.
\<close>

theorem replace_menu_records_exactly_sent:
  assumes "replace_menu_m chat kb sc w = (Inr mid, w')"
  shows "recorded (db w') chat sc = [mid]
         \<and> messages (db w') =
             filter (\<lambda>r. \<not> (chat_id r = chat \<and> scope r = sc)) (messages (db w))
             @ [\<lparr>chat_id = chat, message_id = mid, scope = sc\<rparr>]
         \<and> mid = next_message_id (bot w)
         \<and> next_message_id (bot w') = mid + 1
         \<and> visible (bot w') = visible (bot (delete_scope chat sc w)) @ [(chat, mid)]
         \<and> calls (bot w') = calls (bot (delete_scope chat sc w)) @ [SendMessage chat kb]
         \<and> (\<forall>old \<in> set (recorded (db w) chat sc).
               old \<noteq> mid \<longrightarrow> old \<notin> set (recorded (db w') chat sc))"
proof -
  let ?w1 = "delete_scope chat sc w"
  obtain r t where st: "send_message chat kb (bot ?w1) = (r, t)"
    by (cases "send_message chat kb (bot ?w1)")
  from assms st have r: "r = Inr mid" and w': "w' = remember chat mid sc (?w1\<lparr>bot := t\<rparr>)"
    by (auto simp: replace_menu_m_def send_and_remember_def Let_def split: sum.splits)
  have nid: "next_message_id (bot ?w1) = next_message_id (bot w)"
    by (simp add: delete_scope_def on_db_def Let_def)
  from st r have sent: "mid = next_message_id (bot ?w1)
      \<and> next_message_id t = mid + 1
      \<and> visible t = visible (bot ?w1) @ [(chat, mid)]
      \<and> calls t = calls (bot ?w1) @ [SendMessage chat kb]"
    by (auto simp: send_message_def send_def next_outcome_def Let_def split: list.splits if_splits)
  have msgs: "messages (db w') =
             filter (\<lambda>r. \<not> (chat_id r = chat \<and> scope r = sc)) (messages (db w))
             @ [\<lparr>chat_id = chat, message_id = mid, scope = sc\<rparr>]"
    by (simp add: w' remember_def on_db_def delete_scope_def Let_def)
  have "recorded (db ?w1) chat sc = []" by simp
  then have rec: "recorded (db w') chat sc = [mid]"
    by (simp add: w' remember_def on_db_def recorded_def)
  have bot': "bot w' = t" by (simp add: w' remember_def on_db_def)
  show ?thesis using rec msgs sent nid bot' by auto
qed

theorem replace_menu_records_exactly_sent_witness:
  "fst (replace_menu_m 1 [] ''shop'' shop_world) = Inr 100
   \<and> recorded (db shop_world) 1 ''shop'' = [10, 11]
   \<and> recorded (db (snd (replace_menu_m 1 [] ''shop'' shop_world))) 1 ''shop'' = [100]
   \<and> visible (bot (snd (replace_menu_m 1 [] ''shop'' shop_world))) = [(1, 10), (1, 12), (1, 100)]
   \<and> calls (bot (snd (replace_menu_m 1 [] ''shop'' shop_world)))
       = [DeleteMessage 1 10, DeleteMessage 1 11, SendMessage 1 []]
   \<and> messages (db (snd (replace_menu_m 1 [] ''shop'' shop_world)))
       = [\<lparr>chat_id = 1, message_id = 12, scope = ''home''\<rparr>,
          \<lparr>chat_id = 1, message_id = 100, scope = ''shop''\<rparr>]"
proof -
  obtain w' where run: "replace_menu_m 1 [] ''shop'' shop_world = (Inr 100, w')"
    by (simp add: replace_menu_m_def send_and_remember_def send_message_def send_def
          shop_world_def empty_store_def quiet_bot_def recorded_def delete_scope_def
          on_db_def delete_message_def next_outcome_def Let_def)
  have old: "recorded (db shop_world) 1 ''shop'' = [10, 11]"
    by (simp add: shop_world_def empty_store_def recorded_def)
  have cleanup: "visible (bot (delete_scope 1 ''shop'' shop_world)) = [(1, 10), (1, 12)]
     \<and> calls (bot (delete_scope 1 ''shop'' shop_world)) = [DeleteMessage 1 10, DeleteMessage 1 11]"
    by (simp add: shop_world_def empty_store_def quiet_bot_def recorded_def delete_scope_def
          on_db_def delete_message_def next_outcome_def Let_def)
  have rows: "filter (\<lambda>r. \<not> (chat_id r = 1 \<and> scope r = ''shop'')) (messages (db shop_world))
     = [\<lparr>chat_id = 1, message_id = 12, scope = ''home''\<rparr>]"
    by (simp add: shop_world_def empty_store_def)
  from replace_menu_records_exactly_sent [OF run] run old cleanup rows show ?thesis by simp
qed

section \<open>Properties of the link buttons\<close>

lemma norm_link_valid: "norm_link rp x = Inr (Some l) \<Longrightarrow> valid_link l"
  by (auto simp: norm_link_def valid_link_def strip_idem Let_def split: json.splits sum.splits if_splits)

lemma norm_links_valid: "norm_links rp xs = Inr ls \<Longrightarrow> \<forall>l \<in> set ls. valid_link l"
proof (induction xs arbitrary: ls)
  case Nil
  then show ?case by simp
next
  case (Cons x xs)
  then show ?case
    by (auto split: sum.splits option.splits dest: norm_link_valid)
qed

lemma norm_link_json: "valid_link l \<Longrightarrow> norm_link rp (link_json l) = Inr (Some l)"
  by (auto simp: norm_link_def link_json_def valid_link_def dict_get_def str_of_json_def truthy_def
        int_of_json_def Let_def)

lemma norm_links_json: "\<forall>l \<in> set ls. valid_link l \<Longrightarrow> norm_links rp (map link_json ls) = Inr ls"
  by (induction ls) (simp_all add: norm_link_json)

lemma load_links_valid: "load_links E d = Inr ls \<Longrightarrow> \<forall>l \<in> set ls. valid_link l"
  by (auto simp: load_links_def load_links_of_def split: json_text.splits json.splits dest: norm_links_valid)

lemma load_save_links: "\<forall>l \<in> set ls. valid_link l \<Longrightarrow> load_links E (save_links ls d) = Inr ls"
  by (simp add: load_links_def load_links_of_def save_links_def norm_links_json)

lemma cb_shop_adm: "cb_shop E upd (''adm:'' @ r) w = None"
  by (simp add: cb_shop_def startswith_def)

lemma cats_none: "cb_adm_cats E upd (''adm:links:dn:'' @ r) w = None"
  by (simp add: cb_adm_cats_def startswith_def)

lemma prods_none: "cb_adm_prods E upd (''adm:links:dn:'' @ r) w = None"
  by (simp add: cb_adm_prods_def startswith_def)

lemma photos_none: "cb_adm_photos E upd (''adm:links:dn:'' @ r) w = None"
  by (simp add: cb_adm_photos_def startswith_def)

lemma seg_dn: "seg_int (''adm:links:dn:'' @ show_int i) 3 = Inr i"
  by (simp add: seg_int_def item_def split_no_sep no_colon_show_int py_int_show_int)

lemma links_dn: "cb_adm_links E upd (''adm:links:dn:'' @ show_int i) w =
  Some (gated E upd ''links''
                   (with_int (Inr i)
                      (\<lambda>i. with_links E
                         (\<lambda>arr w'. adm_open_links E upd
                                      (if 0 \<le> i \<and> i < int (length arr) - 1
                                       then on_db (save_links (swap_items (nat (i + 1)) (nat i) arr)) w'
                                       else w')))) w)"
  by (simp add: cb_adm_links_def startswith_def seg_dn del: append.simps) (simp add: seg_dn [simplified])

lemma on_db_simps [simp]: "bot (on_db f w) = bot w" "ud (on_db f w) = ud w" "db (on_db f w) = f (db w)"
  by (simp_all add: on_db_def)

lemma on_ud_simps [simp]: "bot (on_ud f w) = bot w" "ud (on_ud f w) = f (ud w)" "db (on_ud f w) = db w"
  by (simp_all add: on_ud_def)

lemmas route_dn = cb_shop_adm [simplified] cats_none [simplified] prods_none [simplified]
  photos_none [simplified] links_dn [simplified]

lemma sbm_refl [simp]: "same_but_messages d d"
  by (simp add: same_but_messages_def)

lemma sbm_trans: "same_but_messages a b \<Longrightarrow> same_but_messages b c \<Longrightarrow> same_but_messages a c"
  by (cases a, cases b, cases c) (simp add: same_but_messages_def)

lemma sbm_delete_scope [simp]: "same_but_messages (db w) (db (delete_scope chat sc w))"
  by (simp add: same_but_messages_def delete_scope_def on_db_def Let_def)

lemma sbm_remember [simp]: "same_but_messages (db w) (db (remember chat mid sc w))"
  by (simp add: same_but_messages_def remember_def on_db_def)

lemma sbm_send_and_remember:
  "same_but_messages (db w) (db (snd (send_and_remember s chat sc w)))"
  by (simp add: send_and_remember_def same_but_messages_def remember_def on_db_def Let_def split: prod.splits sum.splits)

lemma snd_finish [simp]: "snd (finish r) = snd r"
  by (simp add: finish_def split: prod.splits sum.splits)

lemma sbm_replace_menu: "same_but_messages (db w) (db (snd (replace_menu chat kb sc w)))"
  unfolding replace_menu_def replace_menu_m_def snd_finish
  by (rule sbm_trans [OF sbm_delete_scope sbm_send_and_remember])

lemma ud_replace_menu [simp]: "ud (snd (replace_menu chat kb sc w)) = ud w"
  by (simp add: replace_menu_def replace_menu_m_def send_and_remember_def delete_scope_def remember_def on_db_def Let_def split: prod.splits sum.splits)

lemma sbm_adm_open_links: "same_but_messages (db w) (db (snd (adm_open_links E upd w)))"
  by (auto simp: adm_open_links_def gated_def sbm_replace_menu split: sum.splits)

lemma sbm_load_links: "same_but_messages d d' \<Longrightarrow> load_links E d' = load_links E d"
  by (cases d, cases d') (simp add: same_but_messages_def load_links_def)

lemma sbm_links_json: "same_but_messages d d' \<Longrightarrow> links_json d' = links_json d"
  by (cases d, cases d') (simp add: same_but_messages_def)

lemma has_perm_touch [simp]: "has_perm E (touch_user upd d) u p = has_perm E d u p"
  by (simp add: has_perm_def touch_user_def editor_row_of_def split: option.splits)

lemma require_staff_touch [simp]: "require_staff E (touch_user upd d) upd' = require_staff E d upd'"
  by (simp add: require_staff_def touch_user_def editor_row_of_def split: option.splits)

lemma load_links_touch [simp]: "load_links E (touch_user upd d) = load_links E d"
  by (simp add: load_links_def touch_user_def split: option.splits)

lemma has_perm_staff:
  "effective_user upd = Some user \<Longrightarrow> has_perm E d (tg_id user) p \<Longrightarrow> require_staff E d upd"
  by (auto simp: has_perm_def require_staff_def split: option.splits if_splits)

lemma answer_db: "fst (answer t) = Inr () \<or> fst (answer t) = Inl TransportError"
  by (simp add: answer_def next_outcome_def Let_def split: list.splits)

lemma dn_stored:
  assumes cq: "callback_query upd = Some (''adm:links:dn:'' @ show_int i)"
    and user: "effective_user upd = Some user"
    and load: "load_links E (db w) = Inr arr"
  shows "links_json (db (snd (cb E upd w))) =
           (if fst (answer (bot w)) = Inr () \<and> has_perm E (db w) (tg_id user) ''links''
               \<and> 0 \<le> i \<and> i < int (length arr) - 1
            then Document (JArr (map link_json (swap_items (nat (i + 1)) (nat i) arr)))
            else links_json (db w))"
proof -
  let ?w0 = "on_db (touch_user upd) w"
  obtain r t where a: "answer (bot w) = (r, t)" by (cases "answer (bot w)")
  let ?w1 = "?w0\<lparr>bot := t\<rparr>"
  have l0: "links_json (db ?w1) = links_json (db w)" by (simp add: touch_user_def split: option.splits)
  show ?thesis
  proof (cases r)
    case (Inl e)
    with a cq l0 show ?thesis by (simp add: cb_def Let_def)
  next
    case (Inr u)
    show ?thesis
    proof (cases "has_perm E (db w) (tg_id user) ''links''")
      case False
      then have "cb_adm E upd (''adm:links:dn:'' @ show_int i) ?w1 = (Done, ?w1)"
        using user
        by (simp add: cb_adm_def first_match_def List.map_filter_simps route_dn gated_def user_id_of_def)
      with a Inr cq l0 False show ?thesis
        by (simp add: cb_def Let_def route_dn)
    next
      case True
      then have staff: "require_staff E (db w) upd" using user by (rule has_perm_staff [rotated])
      let ?w2 = "if 0 \<le> i \<and> i < int (length arr) - 1
                 then on_db (save_links (swap_items (nat (i + 1)) (nat i) arr)) ?w1 else ?w1"
      have run: "cb_adm E upd (''adm:links:dn:'' @ show_int i) ?w1 = adm_open_links E upd ?w2"
        using user True load
        by (simp add: cb_adm_def first_match_def List.map_filter_simps route_dn gated_def
              user_id_of_def with_int_def with_links_def)
      have "cb E upd w = adm_open_links E upd ?w2"
        using a Inr cq staff run
        by (simp add: cb_def Let_def route_dn)
      moreover have "links_json (db (snd (adm_open_links E upd ?w2))) = links_json (db ?w2)"
        by (rule sbm_links_json [OF sbm_adm_open_links])
      moreover have "links_json (db ?w2) =
           (if 0 \<le> i \<and> i < int (length arr) - 1
            then Document (JArr (map link_json (swap_items (nat (i + 1)) (nat i) arr)))
            else links_json (db w))"
        using l0 by (simp add: save_links_def)
      ultimately show ?thesis using True a Inr by simp
    qed
  qed
qed

lemma load_links_stored:
  "\<forall>l \<in> set ls. valid_link l \<Longrightarrow> links_json d = Document (JArr (map link_json ls)) \<Longrightarrow> load_links E d = Inr ls"
  by (simp add: load_links_def load_links_of_def norm_links_json)

lemma load_links_same: "links_json d' = links_json d \<Longrightarrow> load_links E d' = load_links E d"
  by (simp add: load_links_def)

text \<open>
  C9. The move-down command \<open>adm:links:dn:i\<close> on a stored link list \<open>[a, b, c]\<close>,
  pressed by a user with the capability \<open>links\<close> (when the callback is answered; without
  either nothing is written): index 0 gives \<open>[b, a, c]\<close>, index 1 gives \<open>[a, c, b]\<close>
  (so the first entry, moved down twice, gives \<open>[b, c, a]\<close>), and the last index, like any
  index out of range, leaves the list and its stored text as they are. The entries are
  the same records throughout: each keeps its fields, and the entry not swapped keeps
  its place.
\<close>

theorem links_move_down:
  assumes cq: "callback_query upd = Some (''adm:links:dn:'' @ show_int i)"
    and user: "effective_user upd = Some user"
    and load: "load_links E (db w) = Inr [a, b, c]"
  shows "load_links E (db (snd (cb E upd w))) =
           Inr (if fst (answer (bot w)) = Inr () \<and> has_perm E (db w) (tg_id user) ''links''
                then (if i = 0 then [b, a, c] else if i = 1 then [a, c, b] else [a, b, c])
                else [a, b, c])
         \<and> links_json (db (snd (cb E upd w))) =
             (if fst (answer (bot w)) = Inr () \<and> has_perm E (db w) (tg_id user) ''links'' \<and> (i = 0 \<or> i = 1)
              then Document (JArr (map link_json (if i = 0 then [b, a, c] else [a, c, b])))
              else links_json (db w))"
proof -
  let ?ok = "fst (answer (bot w)) = Inr () \<and> has_perm E (db w) (tg_id user) ''links''"
  have rng: "(0 \<le> i \<and> i < int (length [a, b, c]) - 1) = (i = 0 \<or> i = 1)" by auto
  have sw0: "swap_items (nat (0 + 1)) (nat 0) [a, b, c] = [b, a, c]" by (simp add: swap_items_def)
  have sw1: "swap_items (nat (1 + 1)) (nat 1) [a, b, c] = [a, c, b]"
    by (simp add: swap_items_def numeral_2_eq_2)
  have stored: "links_json (db (snd (cb E upd w))) =
             (if ?ok \<and> (i = 0 \<or> i = 1)
              then Document (JArr (map link_json (if i = 0 then [b, a, c] else [a, c, b])))
              else links_json (db w))"
    using dn_stored [OF cq user load] sw0 sw1 unfolding rng by auto
  from load have valid: "valid_link a" "valid_link b" "valid_link c"
    using load_links_valid [OF load] by simp_all
  have "load_links E (db (snd (cb E upd w))) =
           Inr (if ?ok then (if i = 0 then [b, a, c] else if i = 1 then [a, c, b] else [a, b, c])
                else [a, b, c])"
  proof (cases "?ok \<and> (i = 0 \<or> i = 1)")
    case True
    with stored have st: "links_json (db (snd (cb E upd w)))
        = Document (JArr (map link_json (if i = 0 then [b, a, c] else [a, c, b])))" by simp
    have "\<forall>l \<in> set (if i = 0 then [b, a, c] else [a, c, b]). valid_link l" using valid by simp
    from load_links_stored [OF this st] True show ?thesis by auto
  next
    case False
    have "links_json (db (snd (cb E upd w))) = links_json (db w)"
      unfolding stored by (simp only: False if_False)
    from load_links_same [OF this] load False show ?thesis by auto
  qed
  with stored show ?thesis by simp
qed

lemmas eval_links =
  cb_def press_def links_world_def owner_env_def empty_store_def quiet_bot_def Let_def
  touch_user_def or_empty_def strip_def answer_def next_outcome_def cb_shop_def startswith_def
  require_staff_def is_admin_def cb_adm_def first_match_def List.map_filter_simps
  cb_adm_cats_def cb_adm_prods_def cb_adm_photos_def cb_adm_links_def gated_def user_id_of_def
  has_perm_def with_int_def with_links_def seg_int_def item_def py_int_def is_space_def
  is_digit_def digit_val_def load_links_def load_links_of_def norm_link_def link_json_def
  dict_get_def str_of_json_def truthy_def int_of_json_def one_def two_def three_def
  swap_items_def save_links_def adm_open_links_def kb_links_manage_def replace_menu_def
  replace_menu_m_def send_and_remember_def send_message_def send_def delete_scope_def
  recorded_def remember_def finish_def show_int_def show_nat.simps digit_char_def

theorem links_move_down_witness:
  "load_links owner_env (db links_world) = Inr [one, two, three]
   \<and> load_links owner_env (db (snd (cb owner_env (press 1 ''adm:links:dn:0'') links_world)))
       = Inr [two, one, three]
   \<and> load_links owner_env
        (db (snd (cb owner_env (press 1 ''adm:links:dn:1'')
                    (snd (cb owner_env (press 1 ''adm:links:dn:0'') links_world)))))
       = Inr [two, three, one]
   \<and> links_json (db (snd (cb owner_env (press 1 ''adm:links:dn:2'') links_world)))
       = links_json (db links_world)"
proof -
  let ?u = "\<lparr>tg_id = 1, tg_username = None, tg_first_name = None, tg_last_name = None\<rparr>"
  let ?w1 = "snd (cb owner_env (press 1 ''adm:links:dn:0'') links_world)"
  have load0: "load_links owner_env (db links_world) = Inr [one, two, three]"
    by (simp add: eval_links)
  have owner: "\<And>d. has_perm owner_env d (tg_id ?u) ''links''"
    by (simp add: has_perm_def is_admin_def owner_env_def)
  have a0: "fst (answer (bot links_world)) = Inr ()" by (simp add: eval_links)
  have a1: "fst (answer (bot ?w1)) = Inr ()" by (simp add: eval_links)
  have s0: "show_int 0 = ''0''" and s1: "show_int 1 = ''1''" and s2: "show_int 2 = ''2''"
    by (simp_all add: show_int_def show_nat.simps digit_char_def)
  have step1: "load_links owner_env (db ?w1) = Inr [two, one, three]"
    using links_move_down [of "press 1 ''adm:links:dn:0''" 0 ?u owner_env links_world one two three]
      load0 owner a0
    by (simp add: press_def s0)
  have step2: "load_links owner_env (db (snd (cb owner_env (press 1 ''adm:links:dn:1'') ?w1)))
       = Inr [two, three, one]"
    using links_move_down [of "press 1 ''adm:links:dn:1''" 1 ?u owner_env ?w1 two one three]
      step1 owner a1
    by (simp add: press_def s1)
  have last: "links_json (db (snd (cb owner_env (press 1 ''adm:links:dn:2'') links_world)))
       = links_json (db links_world)"
    using links_move_down [of "press 1 ''adm:links:dn:2''" 2 ?u owner_env links_world one two three]
      load0
    by (simp add: press_def s2)
  from load0 step1 step2 last show ?thesis by simp
qed

text \<open>
  C10. \<open>load_links\<close> does raise on a stored value: an entry whose \<open>active\<close> field is
  a string that is no decimal literal reaches \<open>int(...)\<close>, and the \<open>ValueError\<close> is
  caught nowhere. The other checks of \<open>load_links\<close> hold: what is not a JSON array
  gives the empty list (\<open>load_links_not_a_list\<close>), and every entry returned is
  normalised (\<open>load_links_valid\<close>).
\<close>

theorem load_links_raises:
  "load_links E (d\<lparr>links_json := bad_links\<rparr>) = Inl ValueError"
  by (simp add: load_links_def load_links_of_def bad_links_def norm_link_def dict_get_def
        str_of_json_def truthy_def int_of_json_def py_int_def strip_def is_space_def is_digit_def Let_def)

lemma load_links_not_a_list:
  "raw = NoText \<or> raw = Malformed \<or> (raw = Document j \<and> (\<forall>xs. j \<noteq> JArr xs))
   \<Longrightarrow> load_links_of rp raw = Inr []"
  by (auto simp: load_links_of_def split: json.splits)

section \<open>Properties of the pagination\<close>

lemma py_slice_page:
  assumes "0 \<le> start" "0 \<le> per"
  shows "py_slice xs start (start + per) = take (nat per) (drop (nat start) xs)"
proof -
  let ?n = "int (length xs)"
  show ?thesis
  proof (cases "start + per \<le> ?n")
    case True
    with assms have "nat (start + per - start) = nat per" by simp
    with True assms show ?thesis by (simp add: py_slice_def Let_def min_def)
  next
    case False
    show ?thesis
    proof (cases "start \<le> ?n")
      case True
      with False assms have "length (drop (nat start) xs) \<le> nat per" by simp
      with True False assms show ?thesis by (simp add: py_slice_def Let_def min_def)
    next
      case f2: False
      with assms show ?thesis by (simp add: py_slice_def Let_def min_def)
    qed
  qed
qed






lemma kb_cats_eq:
  assumes "0 \<le> page" "0 < per"
  shows "kb_cats d page per =
     (let cats = filter (\<lambda>c. c_is_active c = 1) (all_categories d)
      in map (\<lambda>c. [CallbackButton (''shop:cat:'' @ show_int (c_id c) @ '':'' @ show_int page)])
             (take (nat per) (drop (nat (page * per)) cats))
         @ nav_row ((if 0 < page * per then [CallbackButton (''shop:cats:'' @ show_int (max 0 (page - 1)))] else [])
                    @ (if page * per + per < int (length cats)
                       then [CallbackButton (''shop:cats:'' @ show_int (page + 1))] else []))
         @ [[CallbackButton ''shop:home'']])"
proof -
  from assms have a: "0 \<le> page * per" "0 \<le> per" by simp_all
  show ?thesis by (simp add: kb_cats_def Let_def py_slice_page [OF a])
qed



lemma kb_past_the_end:
  assumes "0 \<le> page" "0 < per" "int (length (filter (\<lambda>c. c_is_active c = 1) (all_categories d))) \<le> page * per"
  shows "kb_cats d page per =
           nav_row (if 0 < page * per then [CallbackButton (''shop:cats:'' @ show_int (max 0 (page - 1)))] else [])
           @ [[CallbackButton ''shop:home'']]"
proof -
  from assms have "length (filter (\<lambda>c. c_is_active c = 1) (all_categories d)) \<le> nat (page * per)" by simp
  with assms show ?thesis by (simp add: kb_cats_eq Let_def)
qed




section \<open>Properties of the import\<close>

lemma bind_Inr [simp]: "bind (Inr x) f = f x"
  by (simp add: bind_def)

lemma bind_Inl [simp]: "bind (Inl e) f = Inl e"
  by (simp add: bind_def)

lemma bind_assoc: "bind (bind r f) g = bind r (\<lambda>x. bind (f x) g)"
  by (cases r) simp_all








end
